theory Spec2Isabelle
  imports Complex_Main "HOL-Library.AList"
begin

section \<open>Strings of script.js\<close>

text \<open>
  A JavaScript string is a sequence of UTF-16 code units. A \<^typ>\<open>char\<close> stands for a
  code unit in the range U+0000 .. U+00FF, and a \<^typ>\<open>string\<close> for a JavaScript string
  of such code units; strings with code units beyond U+00FF are outside this type.
  Within that range the definitions below follow ECMAScript: the white space that
  \<^verbatim>\<open>trim\<close> and the regular expression class \<^verbatim>\<open>\s\<close> remove is TAB, LF, VT, FF, CR,
  SPACE and NO-BREAK SPACE; \<^verbatim>\<open>toLowerCase\<close> maps A..Z and the capital letters
  U+00C0 .. U+00DE (without the multiplication sign U+00D7) to the code unit 32 above;
  \<^verbatim>\<open>\w\<close> is A..Z, a..z, 0..9 and the underscore.
\<close>

definition isSpace :: "char \<Rightarrow> bool" where
  "isSpace c = (c \<in> set [CHR 0x09, CHR 0x0A, CHR 0x0B, CHR 0x0C, CHR 0x0D, CHR 0x20, CHR 0xA0])"

definition isUpper :: "char \<Rightarrow> bool" where
  "isUpper c = (let n = (of_char c :: nat) in
     (65 \<le> n \<and> n \<le> 90) \<or> (192 \<le> n \<and> n \<le> 222 \<and> n \<noteq> 215))"

definition toLowerChar :: "char \<Rightarrow> char" where
  "toLowerChar c = (if isUpper c then char_of ((of_char c :: nat) + 32) else c)"

definition toLowerCase :: "string \<Rightarrow> string" where
  "toLowerCase s = map toLowerChar s"

definition trim :: "string \<Rightarrow> string" where
  "trim s = rev (dropWhile isSpace (rev (dropWhile isSpace s)))"

definition startsWith :: "string \<Rightarrow> string \<Rightarrow> bool" where
  "startsWith s p = (take (length p) s = p)"

definition isWordChar :: "char \<Rightarrow> bool" where
  "isWordChar c = (let n = (of_char c :: nat) in
     (97 \<le> n \<and> n \<le> 122) \<or> (65 \<le> n \<and> n \<le> 90) \<or> (48 \<le> n \<and> n \<le> 57) \<or> n = 95)"

text \<open>
  \<^verbatim>\<open>s.replace(/C+/g, r)\<close> for a character class \<open>C\<close>: every maximal run of characters
  of the class is replaced by the one character \<open>r\<close>.
\<close>

function replaceRuns :: "(char \<Rightarrow> bool) \<Rightarrow> char \<Rightarrow> string \<Rightarrow> string" where
  "replaceRuns P r [] = []"
| "replaceRuns P r (c # cs) =
     (if P c then r # replaceRuns P r (dropWhile P cs) else c # replaceRuns P r cs)"
  by pat_completeness auto
termination
  by (relation "measure (\<lambda>(P, r, s). length s)")
     (auto simp: less_Suc_eq_le length_dropWhile_le)

text \<open>The class \<^verbatim>\<open>[^\w.]\<close> of \<^verbatim>\<open>normalizeMarkerStyleKey\<close>.\<close>

definition notWordOrDot :: "char \<Rightarrow> bool" where
  "notWordOrDot c = (\<not> (isWordChar c \<or> c = CHR ''.''))"

section \<open>Field normalizers\<close>

text \<open>
  \<^verbatim>\<open>normalizeDatasetKey\<close> (script.js, lines 93-101). The source guards its argument with
  \<^verbatim>\<open>datasetValue || ""\<close>; an undefined argument is the empty string here.
\<close>

definition normalizeDatasetKey :: "string \<Rightarrow> string" where
  "normalizeDatasetKey datasetValue =
     (let v = trim datasetValue in
      if v = [] then v
      else if v = ''DA2k'' \<or> toLowerCase v = ''da2k'' then ''DA2k''
      else if startsWith v ''DA-2K'' then ''DA2k''
      else if v = ''SPair'' \<or> toLowerCase v = ''spair'' then ''SPair''
      else if startsWith v ''SPair'' then ''SPair''
      else v)"

text \<open>\<^verbatim>\<open>normalizeMarkerStyleKey\<close> (script.js, lines 118-131).\<close>

definition normalizeMarkerStyleKey :: "string \<Rightarrow> string" where
  "normalizeMarkerStyleKey markerStyleValue =
     (let raw = trim markerStyleValue in
      if raw = [] then raw
      else
        let v = replaceRuns isSpace (CHR '' '') (toLowerCase raw) in
        if v = ''default'' then ''default''
        else if v = ''color blue'' \<or> v = ''color_blue'' then ''color_blue''
        else if v = ''marker type square'' \<or> v = ''marker_square''
                \<or> v = ''marker type: square'' then ''marker_square''
        else if v = ''radius 3'' \<or> v = ''radius_3'' then ''radius_3''
        else if v = ''text offset below'' \<or> v = ''text_offset_below'' then ''text_offset_below''
        else if v = ''font scale 0.2'' \<or> v = ''font_scale_0.2'' then ''font_scale_0.2''
        else replaceRuns notWordOrDot (CHR ''_'') v)"

text \<open>
  The characters a slug of \<^verbatim>\<open>normalizeMarkerStyleKey\<close> is made of: the word
  characters that are not capital letters, and the dot.
\<close>

definition isSlugChar :: "char \<Rightarrow> bool" where
  "isSlugChar c = ((isWordChar c \<and> \<not> isUpper c) \<or> c = CHR ''.'')"

section \<open>CSV reader\<close>

text \<open>
  \<^verbatim>\<open>s.split(sep)\<close> for a separator of one character: the pieces between the
  separators, in order; a string without separator is its only piece, and the empty
  string has the one piece \<^verbatim>\<open>""\<close>.
\<close>

fun splitOn :: "char \<Rightarrow> string \<Rightarrow> string list" where
  "splitOn sep [] = [[]]"
| "splitOn sep (c # cs) =
     (if c = sep then [] # splitOn sep cs
      else (case splitOn sep cs of w # ws \<Rightarrow> (c # w) # ws | [] \<Rightarrow> [[c]]))"

text \<open>\<^verbatim>\<open>pieces.join(sep)\<close>, the inverse of \<^verbatim>\<open>split\<close>.\<close>

fun joinWith :: "char \<Rightarrow> string list \<Rightarrow> string" where
  "joinWith sep [] = []"
| "joinWith sep [w] = w"
| "joinWith sep (w # v # ws) = w @ sep # joinWith sep (v # ws)"

record CsvTable =
  headers :: "string list"
  rows :: "string list list"

text \<open>
  \<^verbatim>\<open>parseSimpleCsv\<close> (script.js, lines 59-64). \<open>csvLines\<close> is its first line:
  \<^verbatim>\<open>csvText.trim().split("\n").filter(Boolean)\<close>; \<^verbatim>\<open>filter(Boolean)\<close> keeps the strings
  that are not empty. \<^verbatim>\<open>lines[0] || ""\<close> is the empty string when no line is left.
\<close>

definition csvLines :: "string \<Rightarrow> string list" where
  "csvLines csvText = filter (\<lambda>l. l \<noteq> []) (splitOn (CHR 0x0A) (trim csvText))"

definition splitFields :: "string \<Rightarrow> string list" where
  "splitFields line = map trim (splitOn (CHR '','') line)"

definition parseSimpleCsv :: "string \<Rightarrow> CsvTable" where
  "parseSimpleCsv csvText =
     (let lines = csvLines csvText in
      \<lparr> headers = splitFields (case lines of [] \<Rightarrow> [] | l # _ \<Rightarrow> l),
        rows = map splitFields (drop 1 lines) \<rparr>)"

text \<open>
  The reader as the specification words it, to compare with the code: split on
  newlines, drop blank lines, split each remaining line on commas, trim each field, the
  first remaining line being the headers. What counts as a blank line is a parameter:
  a line with no character at all (\<open>isEmptyLine\<close>), or a line with nothing but white
  space (\<open>isBlankLine\<close>).
\<close>

definition isEmptyLine :: "string \<Rightarrow> bool" where
  "isEmptyLine l = (l = [])"

definition isBlankLine :: "string \<Rightarrow> bool" where
  "isBlankLine l = (trim l = [])"

definition readAsSpecified :: "(string \<Rightarrow> bool) \<Rightarrow> string \<Rightarrow> CsvTable" where
  "readAsSpecified blank csvText =
     (let lines = filter (\<lambda>l. \<not> blank l) (splitOn (CHR 0x0A) csvText) in
      \<lparr> headers = splitFields (case lines of [] \<Rightarrow> [] | l # _ \<Rightarrow> l),
        rows = map splitFields (drop 1 lines) \<rparr>)"

section \<open>Marker data\<close>

text \<open>
  Numbers. A JavaScript number is a double. A finite double is the \<^typ>\<open>real\<close> number
  that it stands for, and the integers that \<^verbatim>\<open>parseInt\<close> returns are \<^typ>\<open>int\<close>s. A
  parsed number that is not finite and \<^verbatim>\<open>undefined\<close> read as a number are \<open>None\<close> of an
  option type, so \<^verbatim>\<open>Number.isFinite(x)\<close> is \<open>x \<noteq> None\<close>. The loaders only store
  and copy the numbers; the updater subtracts them, as doubles (\<open>sub64\<close> below).

  \<^verbatim>\<open>parseFloat\<close> and \<^verbatim>\<open>parseInt(_, 10)\<close> belong to the platform, not to script.js: the
  loaders take them as parameters, of the types \<open>string \<Rightarrow> real option\<close> and
  \<open>string \<Rightarrow> int option\<close>.
\<close>

record MarkerRecord =
  dataset :: string
  marker_style :: string
  model :: string
  accuracy :: real
  rank :: int

text \<open>The object \<^verbatim>\<open>{ accuracy, rank }\<close> stored for a model: a pair.\<close>

type_synonym Score = "real \<times> int"

text \<open>
  A JavaScript \<^verbatim>\<open>Map\<close> is an association list in insertion order with distinct keys:
  \<^verbatim>\<open>get\<close> is \<^const>\<open>map_of\<close>, \<^verbatim>\<open>set\<close> is \<^const>\<open>AList.update\<close> (a known key keeps its place,
  a new key goes to the end) and \<^verbatim>\<open>keys()\<close> is \<open>map fst\<close>.
\<close>

type_synonym ModelMap = "(string \<times> Score) list"

type_synonym StyleMap = "(string \<times> ModelMap) list"

text \<open>
  The object \<^verbatim>\<open>data[dataset]\<close>. The source creates it as \<^verbatim>\<open>{ models }\<close> and then
  stores every style in the same object, \<^verbatim>\<open>data[dataset][style] = { accuracies, ranks }\<close>:
  one object whose property \<^verbatim>\<open>models\<close> is the list of models and whose other
  properties are the styles. It is an association list from property names to
  property values, what the source stored in the object; storing under a name the
  object has already replaces the value. What reading a name gives, with the properties
  that every object inherits from \<^verbatim>\<open>Object.prototype\<close>, is \<open>getProperty\<close> below.
\<close>

record StyleData =
  accuracies :: "real list"
  ranks :: "int list"

datatype Prop = Models "string list" | Style StyleData

type_synonym DatasetObj = "(string \<times> Prop) list"

text \<open>The object \<^verbatim>\<open>data\<close>, from the names of the datasets to their objects.\<close>

type_synonym MarkerData = "(string \<times> DatasetObj) list"

datatype error =
    FetchRejected
  | HttpError nat
  | MissingColumns "string list"
  | TypeError

text \<open>\<^verbatim>\<open>[...new Set(xs)]\<close>: the distinct values of \<open>xs\<close> in the order of first appearance.\<close>

definition setAdd :: "'a list \<Rightarrow> 'a \<Rightarrow> 'a list" where
  "setAdd acc x = (if x \<in> set acc then acc else acc @ [x])"

definition uniqueValues :: "'a list \<Rightarrow> 'a list" where
  "uniqueValues xs = foldl setAdd [] xs"

text \<open>
  The body of \<^verbatim>\<open>datasetRows.forEach\<close> (lines 190-193): a style not yet in the map gets a
  new model map, and the row's model is set in the style's model map.
\<close>

definition addRow :: "StyleMap \<Rightarrow> MarkerRecord \<Rightarrow> StyleMap" where
  "addRow byStyleByModel row =
     (case map_of byStyleByModel (marker_style row) of
        None \<Rightarrow>
          AList.update (marker_style row) [(model row, (accuracy row, rank row))] byStyleByModel
      | Some modelMap \<Rightarrow>
          AList.update (marker_style row)
            (AList.update (model row) (accuracy row, rank row) modelMap) byStyleByModel)"

definition groupByStyle :: "MarkerRecord list \<Rightarrow> StyleMap" where
  "groupByStyle datasetRows =
     (let markerStyles = uniqueValues (map marker_style datasetRows) in
      foldl addRow (map (\<lambda>style. (style, [])) markerStyles) datasetRows)"

text \<open>Lines 195-196: the candidate models.\<close>

definition defaultModels :: "StyleMap \<Rightarrow> MarkerRecord list \<Rightarrow> string list" where
  "defaultModels byStyleByModel datasetRows =
     (case map_of byStyleByModel ''default'' of
        Some defaultModelMap \<Rightarrow> map fst defaultModelMap
      | None \<Rightarrow> uniqueValues (map model datasetRows))"

text \<open>Lines 199-205: the test of the filter, and the filter.\<close>

definition inEveryStyle :: "StyleMap \<Rightarrow> string \<Rightarrow> bool" where
  "inEveryStyle byStyleByModel m =
     list_all (\<lambda>(style, modelMap). map_of modelMap m \<noteq> None) byStyleByModel"

definition commonModels :: "StyleMap \<Rightarrow> MarkerRecord list \<Rightarrow> string list" where
  "commonModels byStyleByModel datasetRows =
     filter (inEveryStyle byStyleByModel) (defaultModels byStyleByModel datasetRows)"

text \<open>
  Lines 210-213: \<^verbatim>\<open>models.map((m) => modelMap.get(m).accuracy)\<close> and the same for the
  rank. \<^verbatim>\<open>modelMap.get(m)\<close> is \<^verbatim>\<open>undefined\<close> for a model the map does not have, and
  reading a property of it throws a \<^verbatim>\<open>TypeError\<close>.
\<close>

definition project :: "ModelMap \<Rightarrow> string list \<Rightarrow> error + StyleData" where
  "project modelMap models =
     (case those (map (map_of modelMap) models) of
        None \<Rightarrow> Inl TypeError
      | Some scores \<Rightarrow> Inr \<lparr> accuracies = map fst scores, ranks = map snd scores \<rparr>)"

text \<open>Lines 209-214: the loop that stores the styles in \<^verbatim>\<open>data[dataset]\<close>.\<close>

fun addStyles :: "DatasetObj \<Rightarrow> string list \<Rightarrow> StyleMap \<Rightarrow> error + DatasetObj" where
  "addStyles obj models [] = Inr obj"
| "addStyles obj models ((style, modelMap) # rest) =
     (case project modelMap models of
        Inl e \<Rightarrow> Inl e
      | Inr styleData \<Rightarrow> addStyles (AList.update style (Style styleData) obj) models rest)"

text \<open>Lines 184-214: the body of \<^verbatim>\<open>datasets.forEach\<close>, for the rows of one dataset.\<close>

definition buildDataset :: "MarkerRecord list \<Rightarrow> error + DatasetObj" where
  "buildDataset datasetRows =
     (let byStyleByModel = groupByStyle datasetRows;
          models = commonModels byStyleByModel datasetRows
      in addStyles [(''models'', Models models)] models byStyleByModel)"

text \<open>Lines 180-215: the marker dataset builder, from the parsed rows to \<^verbatim>\<open>data\<close>.\<close>

fun buildDatasets :: "MarkerData \<Rightarrow> MarkerRecord list \<Rightarrow> string list \<Rightarrow> error + MarkerData" where
  "buildDatasets data parsedRows [] = Inr data"
| "buildDatasets data parsedRows (d # ds) =
     (case buildDataset (filter (\<lambda>row. dataset row = d) parsedRows) of
        Inl e \<Rightarrow> Inl e
      | Inr obj \<Rightarrow> buildDatasets (AList.update d obj data) parsedRows ds)"

definition buildMarkerData :: "MarkerRecord list \<Rightarrow> error + MarkerData" where
  "buildMarkerData parsedRows =
     buildDatasets [] parsedRows (uniqueValues (map dataset parsedRows))"

text \<open>
  The model map that the rows of one style build, row after row (the inner
  \<^verbatim>\<open>Map.set\<close> of line 192), to state what \<open>groupByStyle\<close> returns.
\<close>

definition growMap :: "ModelMap \<Rightarrow> MarkerRecord list \<Rightarrow> ModelMap" where
  "growMap modelMap rs =
     foldl (\<lambda>mm r. AList.update (model r) (accuracy r, rank r) mm) modelMap rs"

definition rowsOfStyle :: "string \<Rightarrow> MarkerRecord list \<Rightarrow> MarkerRecord list" where
  "rowsOfStyle style rs = filter (\<lambda>r. marker_style r = style) rs"

definition hasRow :: "MarkerRecord list \<Rightarrow> string \<Rightarrow> string \<Rightarrow> bool" where
  "hasRow rs style m = list_ex (\<lambda>r. marker_style r = style \<and> model r = m) rs"

text \<open>
  A marker record from its five fields, and the scenario of the specification's
  section 8 for the updater: one dataset (\<^verbatim>\<open>style_a\<close> in the scenario's rows) with the
  styles \<^verbatim>\<open>default\<close> and \<^verbatim>\<open>x\<close> and the models \<^verbatim>\<open>M1\<close> and \<^verbatim>\<open>M2\<close>.
\<close>

definition markerRecord :: "string \<Rightarrow> string \<Rightarrow> string \<Rightarrow> real \<Rightarrow> int \<Rightarrow> MarkerRecord" where
  "markerRecord d s m a r =
     \<lparr> dataset = d, marker_style = s, model = m, accuracy = a, rank = r \<rparr>"

definition scenarioRecords :: "MarkerRecord list" where
  "scenarioRecords =
     [markerRecord ''style_a'' ''default'' ''M1'' 80 2,
      markerRecord ''style_a'' ''default'' ''M2'' 90 1,
      markerRecord ''style_a'' ''x'' ''M1'' 82 1,
      markerRecord ''style_a'' ''x'' ''M2'' 85 2]"

section \<open>Loading the marker data\<close>

text \<open>
  \<^verbatim>\<open>buildCsvHeaderIndex\<close> (lines 72-80): an object from header names to column numbers;
  an empty header is skipped, and of two equal headers the later one wins. The source
  reads the object at the five required names only (lines 151-155), none of which an
  object inherits from \<^verbatim>\<open>Object.prototype\<close>.
\<close>

definition addHeader :: "(string \<times> nat) list \<Rightarrow> string \<times> nat \<Rightarrow> (string \<times> nat) list" where
  "addHeader idx hi = (if fst hi = [] then idx else AList.update (fst hi) (snd hi) idx)"

definition buildCsvHeaderIndex :: "string list \<Rightarrow> (string \<times> nat) list" where
  "buildCsvHeaderIndex hs = foldl addHeader [] (zip hs [0..<length hs])"

text \<open>\<^verbatim>\<open>values[i]\<close>: \<open>None\<close> is \<^verbatim>\<open>undefined\<close>, for an index outside the array.\<close>

definition elemAt :: "'a list \<Rightarrow> nat \<Rightarrow> 'a option" where
  "elemAt xs i = (if i < length xs then Some (xs ! i) else None)"

text \<open>A string argument that may be \<^verbatim>\<open>undefined\<close>, as \<^verbatim>\<open>x || ""\<close> reads it.\<close>

definition orEmpty :: "string option \<Rightarrow> string" where
  "orEmpty x = (case x of None \<Rightarrow> [] | Some s \<Rightarrow> s)"

text \<open>
  Lines 169-178: a row of the CSV as a marker record, and the test of the filter that
  follows. A record is kept when its three strings are not empty and its two numbers
  are finite; \<open>None\<close> is a row that the filter drops. \<^verbatim>\<open>parseFloat(undefined)\<close> and
  \<^verbatim>\<open>parseInt(undefined, 10)\<close> are \<^verbatim>\<open>NaN\<close>.
\<close>

definition parseRow ::
  "(string \<Rightarrow> real option) \<Rightarrow> (string \<Rightarrow> int option) \<Rightarrow>
   nat \<Rightarrow> nat \<Rightarrow> nat \<Rightarrow> nat \<Rightarrow> nat \<Rightarrow> string list \<Rightarrow> MarkerRecord option" where
  "parseRow parseFloat parseInt datasetIdx modelIdx markerStyleIdx accuracyIdx rankIdx values =
     (let d = normalizeDatasetKey (orEmpty (elemAt values datasetIdx));
          s = normalizeMarkerStyleKey (orEmpty (elemAt values markerStyleIdx));
          m = trim (orEmpty (elemAt values modelIdx));
          a = Option.bind (elemAt values accuracyIdx) parseFloat;
          r = Option.bind (elemAt values rankIdx) parseInt
      in case (a, r) of
           (Some acc, Some rk) \<Rightarrow>
             if d \<noteq> [] \<and> s \<noteq> [] \<and> m \<noteq> []
             then Some \<lparr> dataset = d, marker_style = s, model = m, accuracy = acc, rank = rk \<rparr>
             else None
         | _ \<Rightarrow> None)"

text \<open>Lines 157-165: the names of the required columns that the header row lacks.\<close>

definition requiredColumns :: "string list" where
  "requiredColumns = [''dataset'', ''model'', ''marker_style'', ''accuracy'', ''rank'']"

definition missingColumns :: "(string \<times> nat) list \<Rightarrow> string list" where
  "missingColumns headerIdx = filter (\<lambda>name. map_of headerIdx name = None) requiredColumns"

text \<open>
  What \<^verbatim>\<open>fetch\<close> and \<^verbatim>\<open>response.text()\<close> give: a rejected promise, or a response with
  its \<^verbatim>\<open>ok\<close> flag, its status and its text.
\<close>

datatype fetched = Rejected | Response bool nat string

text \<open>
  The body of the \<^verbatim>\<open>try\<close> block of \<^verbatim>\<open>loadMarkerData\<close> (lines 142-218) up to the
  assignment to \<^verbatim>\<open>MARKER_DATA\<close>: \<open>Inl\<close> is what it throws, \<open>Inr\<close> the value of \<^verbatim>\<open>data\<close>.
\<close>

definition loadMarkerDataTry ::
  "(string \<Rightarrow> real option) \<Rightarrow> (string \<Rightarrow> int option) \<Rightarrow> fetched \<Rightarrow> error + MarkerData" where
  "loadMarkerDataTry parseFloat parseInt response =
     (case response of
        Rejected \<Rightarrow> Inl FetchRejected
      | Response ok status csvText \<Rightarrow>
          if \<not> ok then Inl (HttpError status)
          else
            let csv = parseSimpleCsv csvText;
                headerIdx = buildCsvHeaderIndex (headers csv)
            in case (map_of headerIdx ''dataset'', map_of headerIdx ''model'',
                     map_of headerIdx ''marker_style'', map_of headerIdx ''accuracy'',
                     map_of headerIdx ''rank'') of
                 (Some datasetIdx, Some modelIdx, Some markerStyleIdx, Some accuracyIdx,
                  Some rankIdx) \<Rightarrow>
                   buildMarkerData
                     (List.map_filter
                        (parseRow parseFloat parseInt datasetIdx modelIdx markerStyleIdx
                           accuracyIdx rankIdx)
                        (filter (\<lambda>values. length values \<ge> length (headers csv)) (rows csv)))
               | _ \<Rightarrow> Inl (MissingColumns (missingColumns headerIdx)))"

text \<open>
  \<^verbatim>\<open>loadMarkerData\<close> (lines 140-223) on the global \<^verbatim>\<open>MARKER_DATA\<close>: the value the
  promise resolves to, and \<^verbatim>\<open>MARKER_DATA\<close> afterwards. \<open>None\<close> is \<^verbatim>\<open>null\<close>. Whatever the
  \<^verbatim>\<open>try\<close> block throws is caught, logged, and answered with \<^verbatim>\<open>null\<close>.
\<close>

definition loadMarkerData ::
  "(string \<Rightarrow> real option) \<Rightarrow> (string \<Rightarrow> int option) \<Rightarrow> fetched \<Rightarrow>
   MarkerData option \<Rightarrow> MarkerData option \<times> MarkerData option" where
  "loadMarkerData parseFloat parseInt response MARKER_DATA =
     (case loadMarkerDataTry parseFloat parseInt response of
        Inr data \<Rightarrow> (Some data, Some data)
      | Inl e \<Rightarrow> (None, MARKER_DATA))"

section \<open>Visualization updater\<close>

text \<open>
  Subtraction of doubles (IEEE 754 binary64, round to nearest, ties to even). A finite
  double is a multiple of \<open>2 ^ (e - 52)\<close>, where \<open>2 ^ e\<close> is the power of two at or below
  its magnitude and \<open>e\<close> is at least \<open>-1022\<close>. The difference of two finite doubles is
  the exact difference rounded to the nearest such multiple, to the even one of two
  that are as near; it is an infinity when the rounded value reaches \<open>2 ^ 1024\<close>, and
  it is never \<^verbatim>\<open>NaN\<close>. A \<open>number\<close> is such a result; \<^verbatim>\<open>NaN\<close> is \<open>None\<close> of
  \<open>number option\<close>.
\<close>

datatype number = Finite real | PlusInfinity | MinusInfinity

definition roundHalfEven :: "real \<Rightarrow> int" where
  "roundHalfEven q =
     (let f = \<lfloor>q\<rfloor> in
      if q - of_int f < 1 / 2 then f
      else if 1 / 2 < q - of_int f then f + 1
      else if even f then f else f + 1)"

text \<open>
  \<open>ilog2 x\<close> is the exponent \<open>e\<close> of the power of two at or below a positive \<open>x\<close>:
  \<open>2 ^ e \<le> x < 2 ^ (e + 1)\<close>, the floor of the binary logarithm (\<open>ilog2_bounds\<close> and
  \<open>ilog2_floor_log\<close> below).
\<close>

function ilog2 :: "real \<Rightarrow> int" where
  "ilog2 x = (if 2 \<le> x then ilog2 (x / 2) + 1
              else if 0 < x \<and> x < 1 then ilog2 (2 * x) - 1
              else 0)"
  by pat_completeness auto
termination
proof (relation "measure (\<lambda>x. nat \<lceil>x\<rceil> + 2 * nat \<lceil>1 / x\<rceil>)")
  show "wf (measure (\<lambda>x. nat \<lceil>x\<rceil> + 2 * nat \<lceil>1 / x\<rceil>))" by simp
next
  fix x :: real
  assume x: "2 \<le> x"
  have a: "\<lceil>x / 2\<rceil> < \<lceil>x\<rceil>"
  proof -
    have "x \<le> real_of_int \<lceil>x\<rceil>" by (rule le_of_int_ceiling)
    with x have "x / 2 \<le> real_of_int \<lceil>x\<rceil> - 1" by linarith
    then show ?thesis by (simp add: ceiling_less_iff)
  qed
  have b: "\<lceil>1 / (x / 2)\<rceil> = 1" using x by (simp add: ceiling_eq_iff)
  have c: "\<lceil>1 / x\<rceil> = 1" using x by (simp add: ceiling_eq_iff)
  have d: "0 < \<lceil>x\<rceil>" using x by (simp add: less_ceiling_iff)
  show "(x / 2, x) \<in> measure (\<lambda>x. nat \<lceil>x\<rceil> + 2 * nat \<lceil>1 / x\<rceil>)"
    unfolding in_measure b c using a d by linarith
next
  fix x :: real
  assume "\<not> 2 \<le> x" and x: "0 < x \<and> x < 1"
  have a: "\<lceil>x\<rceil> = 1" using x by (simp add: ceiling_eq_iff)
  have b: "\<lceil>2 * x\<rceil> \<le> 2" using x by (simp add: ceiling_le_iff)
  have b0: "0 < \<lceil>2 * x\<rceil>" using x by (simp add: less_ceiling_iff)
  define y where "y = 1 / x"
  have y: "1 < y" using x by (simp add: y_def)
  have c: "\<lceil>1 / (2 * x)\<rceil> < \<lceil>1 / x\<rceil>"
  proof -
    have h: "1 / (2 * x) = y / 2" by (simp add: y_def)
    have "y \<le> real_of_int \<lceil>y\<rceil>" by (rule le_of_int_ceiling)
    moreover from y have "2 \<le> \<lceil>y\<rceil>" by (simp add: le_ceiling_iff)
    then have "2 \<le> real_of_int \<lceil>y\<rceil>" by linarith
    ultimately have "y / 2 \<le> real_of_int \<lceil>y\<rceil> - 1" by linarith
    then have "\<lceil>y / 2\<rceil> < \<lceil>y\<rceil>" by (simp only: ceiling_less_iff)
    then show ?thesis unfolding h by (simp only: y_def)
  qed
  have c0: "0 < \<lceil>1 / (2 * x)\<rceil>" using x by (simp add: less_ceiling_iff)
  show "(2 * x, x) \<in> measure (\<lambda>x. nat \<lceil>x\<rceil> + 2 * nat \<lceil>1 / x\<rceil>)"
    unfolding in_measure a using b b0 c c0 by linarith
qed

declare ilog2.simps [simp del]

definition round64 :: "real \<Rightarrow> number" where
  "round64 x =
     (if x = 0 then Finite 0
      else
        let e = max (ilog2 \<bar>x\<bar>) (- 1022);
            ulp = 2 powi (e - 52);
            y = of_int (roundHalfEven (x / ulp)) * ulp
        in if 2 ^ 1024 \<le> \<bar>y\<bar> then (if 0 < x then PlusInfinity else MinusInfinity)
           else Finite y)"

definition sub64 :: "real \<Rightarrow> real \<Rightarrow> number" where
  "sub64 a b = round64 (a - b)"

text \<open>\<^verbatim>\<open>d > 0\<close> and \<^verbatim>\<open>d < 0\<close> on a number that is not \<^verbatim>\<open>NaN\<close>.\<close>

definition isPositive :: "number \<Rightarrow> bool" where
  "isPositive d = (case d of Finite x \<Rightarrow> 0 < x | PlusInfinity \<Rightarrow> True | MinusInfinity \<Rightarrow> False)"

definition isNegative :: "number \<Rightarrow> bool" where
  "isNegative d = (case d of Finite x \<Rightarrow> x < 0 | PlusInfinity \<Rightarrow> False | MinusInfinity \<Rightarrow> True)"

text \<open>
  Reading a property of an object. \<^verbatim>\<open>data\<close> and \<^verbatim>\<open>data[dataset]\<close> are ordinary objects:
  next to their own properties they inherit the properties of \<^verbatim>\<open>Object.prototype\<close>,
  whose names are listed below. The values of those are functions and, for
  \<^verbatim>\<open>__proto__\<close>, the prototype object: each of them is truthy, and none has a property
  \<^verbatim>\<open>models\<close>, \<^verbatim>\<open>default\<close>, \<^verbatim>\<open>accuracies\<close> or \<^verbatim>\<open>ranks\<close>. An own property hides an inherited
  one of the same name.

  Assigning to the name \<^verbatim>\<open>__proto__\<close> (lines 207 and 210) creates no property: it makes
  the assigned object the prototype of the object assigned to. The association list
  holds the assigned object under the name \<^verbatim>\<open>__proto__\<close>, which is what reading
  \<^verbatim>\<open>__proto__\<close> returns then; the object inherits the properties of that prototype:
  \<^verbatim>\<open>data[dataset]\<close> the two arrays of a style stored as \<^verbatim>\<open>__proto__\<close>, and \<^verbatim>\<open>data\<close> every
  property of a dataset stored as \<^verbatim>\<open>__proto__\<close>.

  \<open>Own v\<close> is a value of the object's association list, \<open>Inherited\<close> any other value
  found, and \<open>None\<close> is \<^verbatim>\<open>undefined\<close>.
\<close>

definition objectPrototypeNames :: "string list" where
  "objectPrototypeNames =
     [''constructor'', ''hasOwnProperty'', ''isPrototypeOf'', ''propertyIsEnumerable'',
      ''toLocaleString'', ''toString'', ''valueOf'', ''__proto__'', ''__defineGetter__'',
      ''__defineSetter__'', ''__lookupGetter__'', ''__lookupSetter__'']"

datatype 'a Looked = Own 'a | Inherited

definition hasPrototypeStyle :: "DatasetObj \<Rightarrow> bool" where
  "hasPrototypeStyle obj =
     (case map_of obj ''__proto__'' of Some (Style sd) \<Rightarrow> True | _ \<Rightarrow> False)"

definition getProperty :: "DatasetObj \<Rightarrow> string \<Rightarrow> Prop Looked option" where
  "getProperty obj name =
     (case map_of obj name of
        Some v \<Rightarrow> Some (Own v)
      | None \<Rightarrow>
          if name \<in> set objectPrototypeNames then Some Inherited
          else if (name = ''accuracies'' \<or> name = ''ranks'') \<and> hasPrototypeStyle obj
          then Some Inherited
          else None)"

definition getDataset :: "MarkerData \<Rightarrow> string \<Rightarrow> DatasetObj Looked option" where
  "getDataset data name =
     (case map_of data name of
        Some obj \<Rightarrow> Some (Own obj)
      | None \<Rightarrow>
          if name \<in> set objectPrototypeNames then Some Inherited
          else case map_of data ''__proto__'' of
                 Some proto \<Rightarrow> map_option (\<lambda>v. Inherited) (getProperty proto name)
               | None \<Rightarrow> None)"

text \<open>
  Reading \<^verbatim>\<open>.accuracies\<close> and \<^verbatim>\<open>.ranks\<close> of a property value of \<^verbatim>\<open>data[dataset]\<close>: a
  style object has them; the list of models is an array and has neither, nor has an
  inherited value (\<open>None\<close> is \<^verbatim>\<open>undefined\<close>).
\<close>

definition accuraciesOf :: "Prop Looked \<Rightarrow> real list option" where
  "accuraciesOf v = (case v of Own (Style sd) \<Rightarrow> Some (accuracies sd) | _ \<Rightarrow> None)"

definition ranksOf :: "Prop Looked \<Rightarrow> int list option" where
  "ranksOf v = (case v of Own (Style sd) \<Rightarrow> Some (ranks sd) | _ \<Rightarrow> None)"

text \<open>
  \<^verbatim>\<open>x - y\<close> on array elements that may be \<^verbatim>\<open>undefined\<close>: then the difference is \<^verbatim>\<open>NaN\<close>,
  else it is the difference of two doubles.
\<close>

definition numSub :: "real option \<Rightarrow> real option \<Rightarrow> number option" where
  "numSub x y = (case (x, y) of (Some a, Some b) \<Rightarrow> Some (sub64 a b) | _ \<Rightarrow> None)"

text \<open>Lines 243-247: the colour of a delta. Every comparison with \<^verbatim>\<open>NaN\<close> is false.\<close>

definition deltaColor :: "number option \<Rightarrow> string" where
  "deltaColor d =
     (case d of
        Some x \<Rightarrow>
          if isPositive x then ''#10b981'' else if isNegative x then ''#ef4444'' else ''#6b7280''
      | None \<Rightarrow> ''#6b7280'')"

text \<open>
  Lines 237-240: \<^verbatim>\<open>models.map((model, i) => selectedData.accuracies[i] - defaultData.accuracies[i])\<close>.
  The function runs once for each model; it throws a \<^verbatim>\<open>TypeError\<close> when
  \<^verbatim>\<open>selectedData\<close> or \<^verbatim>\<open>defaultData\<close> is \<^verbatim>\<open>undefined\<close> or has no \<^verbatim>\<open>accuracies\<close>.
\<close>

definition accuracyDeltas ::
  "string list \<Rightarrow> Prop Looked option \<Rightarrow> Prop Looked option \<Rightarrow> error + number option list" where
  "accuracyDeltas models selectedData defaultData =
     (if models = [] then Inr []
      else
        case (Option.bind selectedData accuraciesOf, Option.bind defaultData accuraciesOf) of
          (Some sa, Some da) \<Rightarrow>
            Inr (map (\<lambda>i. numSub (elemAt sa i) (elemAt da i)) [0..<length models])
        | _ \<Rightarrow> Inl TypeError)"

text \<open>
  Lines 300-315: a row of the leaderboard table. The ranks are integers, and
  \<^verbatim>\<open>defaultRank - selectedRank\<close> is the difference of two doubles as well. The class of
  the delta cell follows its sign. The row's formatted texts (the arrow, the absolute
  value and the score) are not part of the model; formatting the score calls
  \<^verbatim>\<open>toFixed\<close> on \<^verbatim>\<open>selectedData.accuracies[i]\<close> and throws when that is \<^verbatim>\<open>undefined\<close>.
\<close>

record TableRow =
  rowModel :: string
  selectedRank :: "int option"
  rankDelta :: "number option"
  deltaClass :: string

definition rankClass :: "number option \<Rightarrow> string" where
  "rankClass d =
     (case d of
        Some x \<Rightarrow>
          if isPositive x then ''deltaUp'' else if isNegative x then ''deltaDown''
          else ''deltaZero''
      | None \<Rightarrow> ''deltaZero'')"

definition tableRow :: "string list \<Rightarrow> int list \<Rightarrow> int list \<Rightarrow> nat \<Rightarrow> TableRow" where
  "tableRow models selectedRanks defaultRanks i =
     (let delta = numSub (map_option of_int (elemAt defaultRanks i))
                    (map_option of_int (elemAt selectedRanks i)) in
      \<lparr> rowModel = models ! i, selectedRank = elemAt selectedRanks i, rankDelta = delta,
        deltaClass = rankClass delta \<rparr>)"

definition leaderboard ::
  "string list \<Rightarrow> Prop Looked option \<Rightarrow> Prop Looked option \<Rightarrow> error + TableRow list" where
  "leaderboard models selectedData defaultData =
     (if models = [] then Inr []
      else
        case (Option.bind defaultData ranksOf, Option.bind selectedData ranksOf,
              Option.bind selectedData accuraciesOf) of
          (Some dr, Some sr, Some sa) \<Rightarrow>
            if length models \<le> length sa
            then Inr (map (tableRow models sr dr) [0..<length models])
            else Inl TypeError
        | _ \<Rightarrow> Inl TypeError)"

text \<open>
  What \<^verbatim>\<open>updateVisualization\<close> hands to the chart and writes to the table: the deltas
  and their colours, the heights of the two bar series, the range of the y axis, and
  the table rows (\<open>None\<close> when the page has no table body).
\<close>

record Visualization =
  deltas :: "number option list"
  deltaColors :: "string list"
  defaultBars :: "real list option"
  selectedBars :: "real list option"
  yRange :: "nat \<times> nat"
  tableRows :: "TableRow list option"

text \<open>
  Lines 231-315 of \<^verbatim>\<open>updateVisualization\<close>, for the object \<^verbatim>\<open>datasetData\<close>. Every
  property value of the object, own or inherited, is an object, an array or a function,
  so \<^verbatim>\<open>datasetData[markerKey] || defaultData\<close> takes the default exactly when reading
  \<^verbatim>\<open>markerKey\<close> gives \<^verbatim>\<open>undefined\<close>. \<^verbatim>\<open>models.map\<close> throws when \<^verbatim>\<open>datasetData.models\<close> is
  not an array.
\<close>

definition updateVisualizationOn ::
  "DatasetObj \<Rightarrow> string \<Rightarrow> string \<Rightarrow> bool \<Rightarrow> error + Visualization" where
  "updateVisualizationOn datasetData currentDataset markerKey hasTableBody =
     (let defaultData = getProperty datasetData ''default'';
          selectedData =
            (case getProperty datasetData markerKey of Some v \<Rightarrow> Some v | None \<Rightarrow> defaultData)
      in case getProperty datasetData ''models'' of
           Some (Own (Models models)) \<Rightarrow>
             (case accuracyDeltas models selectedData defaultData of
                Inl e \<Rightarrow> Inl e
              | Inr ds \<Rightarrow>
                  (case (defaultData, selectedData) of
                     (Some dv, Some sv) \<Rightarrow>
                       (case (if hasTableBody
                              then map_sum id Some (leaderboard models selectedData defaultData)
                              else Inr None) of
                          Inl e \<Rightarrow> Inl e
                        | Inr table \<Rightarrow>
                            Inr \<lparr> deltas = ds, deltaColors = map deltaColor ds,
                                  defaultBars = accuraciesOf dv, selectedBars = accuraciesOf sv,
                                  yRange = (if currentDataset = ''DA2k'' then (45, 100)
                                            else (20, 100)),
                                  tableRows = table \<rparr>)
                   | _ \<Rightarrow> Inl TypeError))
         | _ \<Rightarrow> Inl TypeError)"

text \<open>
  \<^verbatim>\<open>updateVisualization\<close> (lines 225-316) on the globals \<^verbatim>\<open>MARKER_DATA\<close> and
  \<^verbatim>\<open>currentDataset\<close>: \<open>None\<close> when the data is not loaded or \<^verbatim>\<open>MARKER_DATA[currentDataset]\<close>
  is \<^verbatim>\<open>undefined\<close> (the function logs and returns). When it is an inherited value,
  \<^verbatim>\<open>datasetData.models\<close> is \<^verbatim>\<open>undefined\<close> and \<^verbatim>\<open>models.map\<close> throws.
\<close>

definition updateVisualization ::
  "MarkerData option \<Rightarrow> string \<Rightarrow> string \<Rightarrow> bool \<Rightarrow> (error + Visualization) option" where
  "updateVisualization MARKER_DATA currentDataset markerKey hasTableBody =
     (case Option.bind MARKER_DATA (\<lambda>data. getDataset data currentDataset) of
        None \<Rightarrow> None
      | Some Inherited \<Rightarrow> Some (Inl TypeError)
      | Some (Own datasetData) \<Rightarrow>
          Some (updateVisualizationOn datasetData currentDataset markerKey hasTableBody))"

section \<open>JPEG rank chart\<close>

text \<open>
  A row of \<^verbatim>\<open>jpeg_rank.csv\<close> as \<^verbatim>\<open>loadJpegRankData\<close> returns it. The rank is what
  \<^verbatim>\<open>parseInt\<close> gave: \<open>None\<close> when it is not a finite number.
\<close>

record JpegRankRecord =
  benchmark :: string
  jpeg_model :: string
  jpeg_quality :: string
  jpeg_rank :: "int option"

text \<open>
  \<^verbatim>\<open>loadJpegRankData\<close> (lines 329-347). A rejected fetch is not caught here; a response
  that is not \<^verbatim>\<open>ok\<close> is logged and answered with \<^verbatim>\<open>null\<close> (\<open>Inr None\<close>). \<open>jpegRow\<close>
  reads the first four fields of a row; the filter before it keeps the rows that have
  them.
\<close>

definition jpegRow :: "(string \<Rightarrow> int option) \<Rightarrow> string list \<Rightarrow> JpegRankRecord" where
  "jpegRow parseInt values =
     \<lparr> benchmark = values ! 0, jpeg_model = values ! 1, jpeg_quality = values ! 2,
       jpeg_rank = parseInt (values ! 3) \<rparr>"

definition loadJpegRankData ::
  "(string \<Rightarrow> int option) \<Rightarrow> fetched \<Rightarrow> error + JpegRankRecord list option" where
  "loadJpegRankData parseInt response =
     (case response of
        Rejected \<Rightarrow> Inl FetchRejected
      | Response ok status csvText \<Rightarrow>
          if \<not> ok then Inr None
          else Inr (Some (map (jpegRow parseInt)
                 (filter (\<lambda>values. length values \<ge> 4) (rows (parseSimpleCsv csvText))))))"

text \<open>
  Lines 370-374 and 389-393: rows grouped in a \<^verbatim>\<open>Map\<close> from a key to the array of the
  rows with that key, in the order of the rows.
\<close>

definition groupPush ::
  "('r \<Rightarrow> string) \<Rightarrow> (string \<times> 'r list) list \<Rightarrow> 'r \<Rightarrow> (string \<times> 'r list) list" where
  "groupPush key m r =
     (case map_of m (key r) of
        None \<Rightarrow> AList.update (key r) [r] m
      | Some rs \<Rightarrow> AList.update (key r) (rs @ [r]) m)"

definition groupBy :: "('r \<Rightarrow> string) \<Rightarrow> 'r list \<Rightarrow> (string \<times> 'r list) list" where
  "groupBy key rs = foldl (groupPush key) [] rs"

text \<open>
  \<^verbatim>\<open>qualitySortKey\<close> (lines 376-380): 1000 for \<^verbatim>\<open>"default"\<close>, else the number that the
  first run of digits spells, else 0.
\<close>

definition isDigit :: "char \<Rightarrow> bool" where
  "isDigit c = (let n = (of_char c :: nat) in 48 \<le> n \<and> n \<le> 57)"

definition digitsValue :: "string \<Rightarrow> nat" where
  "digitsValue ds = foldl (\<lambda>n c. 10 * n + (of_char c - 48)) 0 ds"

definition qualitySortKey :: "string \<Rightarrow> nat" where
  "qualitySortKey q =
     (if q = ''default'' then 1000
      else case dropWhile (\<lambda>c. \<not> isDigit c) q of
             [] \<Rightarrow> 0
           | ds \<Rightarrow> digitsValue (takeWhile isDigit ds))"

text \<open>
  Lines 395-399: the models are ordered by \<^verbatim>\<open>Array.prototype.sort\<close> with a comparator,
  the difference of the two default ranks,
  \<^verbatim>\<open>find((x) => x.jpeg_quality === "default")?.rank ?? 9999\<close>: 9999 for a model without
  default entry, else the rank of its first default entry, which may be \<^verbatim>\<open>NaN\<close>
  (\<open>None\<close>; \<^verbatim>\<open>??\<close> replaces \<^verbatim>\<open>undefined\<close> only). \<open>defaultBefore a b\<close> says that
  \<^verbatim>\<open>aDefault - bDefault\<close> is negative; a difference that is \<^verbatim>\<open>NaN\<close> is not, and the sort
  takes it as 0. (A rank is \<open>None\<close> also when \<^verbatim>\<open>parseInt\<close> gave an infinity, which it does
  only for a run of more than 308 digits; the source compares an infinite rank as a
  number, the model takes it for \<^verbatim>\<open>NaN\<close>.)

  \<open>sortBy\<close> is the stable insertion sort with a comparator: an element goes before the
  first element of the sorted rest that the comparator does not put before it. With a
  consistent comparator it gives what \<^verbatim>\<open>Array.prototype.sort\<close>, a stable sort, gives
  (\<open>sortBy_sort_key\<close> below). When a default rank is \<^verbatim>\<open>NaN\<close> the comparator is not
  consistent, and ECMAScript leaves the order to the implementation; it is a
  permutation of the models in any case, as here.
\<close>

definition defaultEntry :: "JpegRankRecord list \<Rightarrow> JpegRankRecord option" where
  "defaultEntry points = find (\<lambda>p. jpeg_quality p = ''default'') points"

definition defaultSortKey :: "JpegRankRecord list \<Rightarrow> int option" where
  "defaultSortKey points =
     (case defaultEntry points of None \<Rightarrow> Some 9999 | Some p \<Rightarrow> jpeg_rank p)"

definition defaultBefore :: "int option \<Rightarrow> int option \<Rightarrow> bool" where
  "defaultBefore a b = (case (a, b) of (Some x, Some y) \<Rightarrow> x < y | _ \<Rightarrow> False)"

fun insertBy :: "('a \<Rightarrow> 'a \<Rightarrow> bool) \<Rightarrow> 'a \<Rightarrow> 'a list \<Rightarrow> 'a list" where
  "insertBy before x [] = [x]"
| "insertBy before x (y # ys) =
     (if before y x then y # insertBy before x ys else x # y # ys)"

definition sortBy :: "('a \<Rightarrow> 'a \<Rightarrow> bool) \<Rightarrow> 'a list \<Rightarrow> 'a list" where
  "sortBy before xs = foldr (insertBy before) xs []"

text \<open>The four arrays of a panel: the segment trace and the marker trace.\<close>

record Panel =
  segmentX :: "int option list"
  segmentY :: "string option list"
  dotX :: "int list"
  dotY :: "string list"

definition pointsOf :: "(string \<times> JpegRankRecord list) list \<Rightarrow> string \<Rightarrow> JpegRankRecord list" where
  "pointsOf byModel m = (case map_of byModel m of None \<Rightarrow> [] | Some ps \<Rightarrow> ps)"

text \<open>
  Lines 411-437: the body of \<^verbatim>\<open>modelsSorted.forEach\<close>. The comparator of the points is
  consistent, and \<^verbatim>\<open>Array.prototype.sort\<close> is stable, as is \<^const>\<open>sort_key\<close>. The keys are
  compared as the numbers that the digits spell; where \<^verbatim>\<open>parseInt\<close> rounds two long runs
  of digits to one double, the source leaves the two points in the order of the rows.
  The order of the points shows in the hover texts, which are not part of the model;
  the segment and the marker depend on it only through the first \<^verbatim>\<open>default\<close> entry, and
  the \<^verbatim>\<open>default\<close> entries all have the key 1000 (\<open>modelStep_ranges\<close> below). \<open>None\<close> in
  a segment array is the \<^verbatim>\<open>null\<close> that ends a segment.
\<close>

definition finiteRanks :: "JpegRankRecord list \<Rightarrow> int list" where
  "finiteRanks points = List.map_filter jpeg_rank points"

definition modelStep :: "(string \<times> JpegRankRecord list) list \<Rightarrow> Panel \<Rightarrow> string \<Rightarrow> Panel" where
  "modelStep byModel panel m =
     (let points = sort_key (\<lambda>p. qualitySortKey (jpeg_quality p)) (pointsOf byModel m) in
      case finiteRanks points of
        [] \<Rightarrow> panel
      | r # rs \<Rightarrow>
          let minRank = fold min rs r;
              maxRank = fold max rs r;
              panel' = panel \<lparr> segmentX := segmentX panel @ [Some minRank, Some maxRank, None],
                                segmentY := segmentY panel @ [Some m, Some m, None] \<rparr>
          in case Option.bind (defaultEntry points) jpeg_rank of
               None \<Rightarrow> panel'
             | Some defaultRank \<Rightarrow>
                 panel' \<lparr> dotX := dotX panel' @ [defaultRank], dotY := dotY panel' @ [m] \<rparr>)"

text \<open>
  Lines 385-468: the panel of one benchmark, \<open>None\<close> when the benchmark has no row;
  with it the array \<^verbatim>\<open>yCategoryArrays[bench.key]\<close>.
\<close>

definition modelsSorted :: "(string \<times> JpegRankRecord list) list \<Rightarrow> string list" where
  "modelsSorted byModel =
     sortBy (\<lambda>a b. defaultBefore (defaultSortKey (pointsOf byModel a))
                                (defaultSortKey (pointsOf byModel b)))
       (map fst byModel)"

definition benchmarkPanel ::
  "(string \<times> JpegRankRecord list) list \<Rightarrow> string \<Rightarrow> (string list \<times> Panel) option" where
  "benchmarkPanel byBenchmark benchKey =
     (case pointsOf byBenchmark benchKey of
        [] \<Rightarrow> None
      | d # ds \<Rightarrow>
          let byModel = groupBy jpeg_model (d # ds);
              sorted = modelsSorted byModel
          in Some (rev sorted,
                   foldl (modelStep byModel)
                     \<lparr> segmentX = [], segmentY = [], dotX = [], dotY = [] \<rparr> sorted))"

text \<open>
  \<^verbatim>\<open>renderJpegRankChart\<close> (lines 361-525): \<open>None\<close> when the page has no chart container,
  else for each of the two benchmarks its key and its panel, if it has one.
\<close>

definition BENCHMARKS :: "string list" where
  "BENCHMARKS = [''BLINK_RD'', ''MME'']"

definition renderJpegRankChart ::
  "bool \<Rightarrow> JpegRankRecord list \<Rightarrow> (string \<times> (string list \<times> Panel) option) list option" where
  "renderJpegRankChart hasContainer rs =
     (if \<not> hasContainer then None
      else
        let byBenchmark = groupBy benchmark rs in
        Some (map (\<lambda>benchKey. (benchKey, benchmarkPanel byBenchmark benchKey)) BENCHMARKS))"

text \<open>
  What the chart shows for a model, stated on its rows in the order of the CSV: the
  range from the least to the greatest finite rank, if it has a finite rank, and the
  marker at the rank of its first \<^verbatim>\<open>default\<close> row, if that rank is finite.
\<close>

definition modelRange :: "JpegRankRecord list \<Rightarrow> (int \<times> int) option" where
  "modelRange points =
     (if finiteRanks points = [] then None
      else Some (Min (set (finiteRanks points)), Max (set (finiteRanks points))))"

definition modelMarker :: "JpegRankRecord list \<Rightarrow> int option" where
  "modelMarker points =
     (if finiteRanks points = [] then None else Option.bind (defaultEntry points) jpeg_rank)"

definition rowsOfModel :: "JpegRankRecord list \<Rightarrow> string \<Rightarrow> string \<Rightarrow> JpegRankRecord list" where
  "rowsOfModel rs b m = filter (\<lambda>r. jpeg_model r = m) (filter (\<lambda>r. benchmark r = b) rs)"

definition jpegRecord :: "string \<Rightarrow> string \<Rightarrow> string \<Rightarrow> int option \<Rightarrow> JpegRankRecord" where
  "jpegRecord b m q r = \<lparr> benchmark = b, jpeg_model = m, jpeg_quality = q, jpeg_rank = r \<rparr>"

section \<open>Page load\<close>

text \<open>
  The handler of \<^verbatim>\<open>DOMContentLoaded\<close> (lines 528-574), as far as the two pipelines go.
  \<open>buttons\<close> are the \<^verbatim>\<open>data-marker\<close> attributes of the marker buttons (\<open>None\<close> for a
  button without the attribute). \<^verbatim>\<open>MARKER_DATA\<close> is \<^verbatim>\<open>null\<close> and \<^verbatim>\<open>currentDataset\<close> is
  \<^verbatim>\<open>DA2k\<close> when the handler starts. The handler is an async function without
  \<^verbatim>\<open>try\<close>: what \<^verbatim>\<open>updateVisualization\<close> or the awaited JPEG promise throws ends it
  (\<open>uncaught\<close>), and what would have followed does not happen.
\<close>

record Page =
  markerData :: "MarkerData option"
  accuracyChart :: "Visualization option"
  jpegRankChart :: "(string \<times> (string list \<times> Panel) option) list option"
  uncaught :: "error option"

definition initialMarker :: "string option list \<Rightarrow> string" where
  "initialMarker buttons =
     (case buttons of
        Some k # _ \<Rightarrow> if k = [] then ''color_blue'' else k
      | _ \<Rightarrow> ''color_blue'')"

definition pageLoad ::
  "(string \<Rightarrow> real option) \<Rightarrow> (string \<Rightarrow> int option) \<Rightarrow> fetched \<Rightarrow> fetched \<Rightarrow>
   string option list \<Rightarrow> bool \<Rightarrow> bool \<Rightarrow> Page" where
  "pageLoad parseFloat parseInt markerResponse jpegResponse buttons hasTableBody hasContainer =
     (let MARKER_DATA = snd (loadMarkerData parseFloat parseInt markerResponse None);
          drawn = (if MARKER_DATA \<noteq> None \<and> buttons \<noteq> []
                   then updateVisualization MARKER_DATA ''DA2k'' (initialMarker buttons)
                          hasTableBody
                   else None)
      in case drawn of
           Some (Inl e) \<Rightarrow>
             \<lparr> markerData = MARKER_DATA, accuracyChart = None, jpegRankChart = None,
               uncaught = Some e \<rparr>
         | _ \<Rightarrow>
             (case loadJpegRankData parseInt jpegResponse of
                Inl e \<Rightarrow>
                  \<lparr> markerData = MARKER_DATA,
                    accuracyChart = Option.bind drawn (case_sum (\<lambda>e. None) Some),
                    jpegRankChart = None, uncaught = Some e \<rparr>
              | Inr jpegRows \<Rightarrow>
                  \<lparr> markerData = MARKER_DATA,
                    accuracyChart = Option.bind drawn (case_sum (\<lambda>e. None) Some),
                    jpegRankChart = Option.bind jpegRows (renderJpegRankChart hasContainer),
                    uncaught = None \<rparr>))"


section \<open>Properties of the string operations\<close>

lemma dropWhile_none: "\<forall>c \<in> set s. \<not> P c \<Longrightarrow> dropWhile P s = s"
  by (cases s) auto

lemma trim_no_space: "\<forall>c \<in> set s. \<not> isSpace c \<Longrightarrow> trim s = s"
  by (simp add: trim_def dropWhile_none)

lemma trim_ends:
  "trim s \<noteq> [] \<Longrightarrow> \<not> isSpace (hd (trim s)) \<and> \<not> isSpace (last (trim s))"
proof -
  assume ne: "trim s \<noteq> []"
  let ?a = "dropWhile isSpace s"
  let ?b = "dropWhile isSpace (rev ?a)"
  have t: "trim s = rev ?b" by (simp add: trim_def)
  from ne t have b: "?b \<noteq> []" by simp
  then have hb: "\<not> isSpace (hd ?b)" by (rule hd_dropWhile)
  have a: "?a \<noteq> []"
    by (metis b dropWhile.simps(1) rev.simps(1))
  then have ha: "\<not> isSpace (hd ?a)" by (rule hd_dropWhile)
  have "last ?b = last (rev ?a)"
    using b by (metis dropWhile_eq_Nil_conv last_appendR takeWhile_dropWhile_id)
  then have "last ?b = hd ?a" using a by (simp add: last_rev)
  with ha have "\<not> isSpace (last ?b)" by simp
  then have "\<not> isSpace (hd (trim s))" using b t by (simp add: hd_rev)
  moreover have "\<not> isSpace (last (trim s))" using hb b t by (simp add: last_rev)
  ultimately show ?thesis by simp
qed

lemma trim_fixed: "s \<noteq> [] \<Longrightarrow> \<not> isSpace (hd s) \<Longrightarrow> \<not> isSpace (last s) \<Longrightarrow> trim s = s"
proof -
  assume ne: "s \<noteq> []" and h: "\<not> isSpace (hd s)" and l: "\<not> isSpace (last s)"
  from ne h have a: "dropWhile isSpace s = s" by (cases s) auto
  from ne l have "dropWhile isSpace (rev s) = rev s" by (cases "rev s") (auto simp: hd_rev)
  with a show ?thesis by (simp add: trim_def)
qed

lemma trim_idem: "trim (trim s) = trim s"
proof (cases "trim s = []")
  case True
  have "trim [] = []" by (simp add: trim_def)
  with True show ?thesis by simp
next
  case False
  with trim_ends [OF False] show ?thesis by (simp add: trim_fixed)
qed

lemma replaceRuns_none: "\<forall>c \<in> set s. \<not> P c \<Longrightarrow> replaceRuns P r s = s"
  by (induction s) auto

lemma replaceRuns_set:
  "c \<in> set (replaceRuns P r s) \<Longrightarrow> c = r \<or> (c \<in> set s \<and> \<not> P c)"
proof (induction P r s rule: replaceRuns.induct)
  case (1 P r)
  then show ?case by simp
next
  case (2 P r d ds)
  show ?case
  proof (cases "P d")
    case True
    with 2 have "c = r \<or> c \<in> set (replaceRuns P r (dropWhile P ds))" by simp
    with 2 True show ?thesis by (auto dest: set_dropWhileD)
  next
    case False
    with 2 show ?thesis by auto
  qed
qed

lemma replaceRuns_nonempty: "s \<noteq> [] \<Longrightarrow> replaceRuns P r s \<noteq> []"
  by (cases s) auto

section \<open>Properties of the field normalizers\<close>

lemma slug_not_space: "isSlugChar c \<Longrightarrow> \<not> isSpace c"
  by (auto simp: isSlugChar_def isSpace_def isWordChar_def Let_def)

lemma slug_word_or_dot: "isSlugChar c \<Longrightarrow> \<not> notWordOrDot c"
  by (auto simp: isSlugChar_def notWordOrDot_def)

lemma toLowerChar_slug: "isSlugChar c \<Longrightarrow> toLowerChar c = c"
  by (auto simp: isSlugChar_def toLowerChar_def isUpper_def Let_def)

lemma toLowerChar_word: "isWordChar (toLowerChar c) \<Longrightarrow> \<not> isUpper (toLowerChar c)"
  by (auto simp: toLowerChar_def isUpper_def isWordChar_def Let_def)

text \<open>A non-empty string of slug characters is a fixed point of the normalizer.\<close>

lemma slug_fixed:
  assumes ne: "s \<noteq> []" and sl: "\<forall>c \<in> set s. isSlugChar c"
  shows "normalizeMarkerStyleKey s = s"
proof -
  have t: "trim s = s" using sl by (simp add: trim_no_space slug_not_space)
  have l: "toLowerCase s = s"
    using sl by (simp add: toLowerCase_def toLowerChar_slug map_idI)
  have v: "replaceRuns isSpace (CHR '' '') s = s"
    using sl by (simp add: replaceRuns_none slug_not_space)
  have w: "replaceRuns notWordOrDot (CHR ''_'') s = s"
    using sl by (simp add: replaceRuns_none slug_word_or_dot)
  have sp: "CHR '' '' \<notin> set s" using sl slug_not_space by (auto simp: isSpace_def)
  have n1: "s \<noteq> ''color blue''" using sp by auto
  have n2: "s \<noteq> ''marker type square''" using sp by auto
  have n3: "s \<noteq> ''marker type: square''" using sp by auto
  have n4: "s \<noteq> ''radius 3''" using sp by auto
  have n5: "s \<noteq> ''text offset below''" using sp by auto
  have n6: "s \<noteq> ''font scale 0.2''" using sp by auto
  have "normalizeMarkerStyleKey s =
     (if s = ''default'' then ''default''
        else if s = ''color_blue'' then ''color_blue''
        else if s = ''marker_square'' then ''marker_square''
        else if s = ''radius_3'' then ''radius_3''
        else if s = ''text_offset_below'' then ''text_offset_below''
        else if s = ''font_scale_0.2'' then ''font_scale_0.2''
        else s)"
    unfolding normalizeMarkerStyleKey_def Let_def t l v w
    using ne n1 n2 n3 n4 n5 n6 by (simp only: if_False simp_thms)
  then show ?thesis by (simp only: if_splits) blast
qed

text \<open>What the last line of the normalizer returns is made of slug characters only.\<close>

lemma slug_output:
  "\<forall>c \<in> set (replaceRuns notWordOrDot (CHR ''_'')
            (replaceRuns isSpace (CHR '' '') (toLowerCase raw))). isSlugChar c"
proof
  fix c
  let ?v = "replaceRuns isSpace (CHR '' '') (toLowerCase raw)"
  assume "c \<in> set (replaceRuns notWordOrDot (CHR ''_'') ?v)"
  then have "c = CHR ''_'' \<or> (c \<in> set ?v \<and> \<not> notWordOrDot c)"
    by (rule replaceRuns_set)
  then show "isSlugChar c"
  proof
    assume "c = CHR ''_''"
    then show ?thesis by (simp add: isSlugChar_def isWordChar_def isUpper_def)
  next
    assume a: "c \<in> set ?v \<and> \<not> notWordOrDot c"
    then have "c = CHR '' '' \<or> (c \<in> set (toLowerCase raw) \<and> \<not> isSpace c)"
      using replaceRuns_set by blast
    then show ?thesis
    proof
      assume "c = CHR '' ''"
      with a show ?thesis by (simp add: notWordOrDot_def isWordChar_def)
    next
      assume "c \<in> set (toLowerCase raw) \<and> \<not> isSpace c"
      then obtain d where "c = toLowerChar d" by (auto simp: toLowerCase_def)
      with a show ?thesis
        using toLowerChar_word [of d] by (auto simp: isSlugChar_def notWordOrDot_def)
    qed
  qed
qed

text \<open>
  Claim C4, as the code has it. \<^verbatim>\<open>normalizeMarkerStyleKey("Color Blue")\<close> is
  \<^verbatim>\<open>"color_blue"\<close>. For \<^verbatim>\<open>"unknown style!!"\<close> no table entry matches and the last line
  replaces each run of characters outside \<^verbatim>\<open>[\w.]\<close> by one underscore: the blank gives
  one underscore and the run \<^verbatim>\<open>!!\<close> at the end another, so the result is
  \<^verbatim>\<open>"unknown_style_"\<close>, with the underscore at the end.
\<close>

theorem normalizeMarkerStyleKey_examples:
  "normalizeMarkerStyleKey ''Color Blue'' = ''color_blue'' \<and>
   normalizeMarkerStyleKey ''unknown style!!'' = ''unknown_style_''"
  by code_simp

text \<open>
  Claim C4 as the specification states it fails in its second half: the result for
  \<^verbatim>\<open>"unknown style!!"\<close> is not \<^verbatim>\<open>"unknown_style"\<close>.
\<close>

theorem normalizeMarkerStyleKey_unknown_style_counterexample:
  "normalizeMarkerStyleKey ''unknown style!!'' \<noteq> ''unknown_style''"
  by code_simp

text \<open>
  Claim C5: \<^verbatim>\<open>normalizeDatasetKey\<close> is idempotent. Its results are the empty string,
  the two canonical keys and trimmed strings that match no rule; each is mapped to
  itself.
\<close>

theorem normalizeDatasetKey_idempotent:
  "normalizeDatasetKey (normalizeDatasetKey x) = normalizeDatasetKey x"
proof -
  have a: "normalizeDatasetKey ''DA2k'' = ''DA2k''" by code_simp
  have b: "normalizeDatasetKey ''SPair'' = ''SPair''" by code_simp
  have c: "normalizeDatasetKey [] = []" by code_simp
  show ?thesis
    unfolding normalizeDatasetKey_def [of x] Let_def
    by (simp add: a b c) (simp add: normalizeDatasetKey_def trim_idem)
qed

text \<open>
  Claim C10: \<^verbatim>\<open>normalizeMarkerStyleKey\<close> is idempotent. A result is the empty string,
  one of the six canonical keys, or a slug; a slug is a non-empty string of lower-case
  word characters, dots and underscores, and every such string is a fixed point.
\<close>

theorem normalizeMarkerStyleKey_idempotent:
  "normalizeMarkerStyleKey (normalizeMarkerStyleKey x) = normalizeMarkerStyleKey x"
proof -
  have k1: "normalizeMarkerStyleKey ''default'' = ''default''" by code_simp
  have k2: "normalizeMarkerStyleKey ''color_blue'' = ''color_blue''" by code_simp
  have k3: "normalizeMarkerStyleKey ''marker_square'' = ''marker_square''" by code_simp
  have k4: "normalizeMarkerStyleKey ''radius_3'' = ''radius_3''" by code_simp
  have k5: "normalizeMarkerStyleKey ''text_offset_below'' = ''text_offset_below''" by code_simp
  have k6: "normalizeMarkerStyleKey ''font_scale_0.2'' = ''font_scale_0.2''" by code_simp
  have k0: "normalizeMarkerStyleKey [] = []" by code_simp
  let ?raw = "trim x"
  let ?v = "replaceRuns isSpace (CHR '' '') (toLowerCase ?raw)"
  let ?s = "replaceRuns notWordOrDot (CHR ''_'') ?v"
  have slug: "?raw \<noteq> [] \<Longrightarrow> normalizeMarkerStyleKey ?s = ?s"
  proof -
    assume ne: "?raw \<noteq> []"
    then have "toLowerCase ?raw \<noteq> []" by (simp add: toLowerCase_def)
    then have "?s \<noteq> []" by (simp add: replaceRuns_nonempty)
    then show ?thesis using slug_output by (rule slug_fixed)
  qed
  show ?thesis
    unfolding normalizeMarkerStyleKey_def [of x] Let_def
    using slug by (simp add: k0 k1 k2 k3 k4 k5 k6)
qed

section \<open>Properties of the CSV reader\<close>

lemma splitOn_nonempty: "splitOn sep s \<noteq> []"
  by (induction s) (auto split: list.splits)

lemma splitOn_Cons:
  "splitOn sep (c # cs) =
     (if c = sep then [] # splitOn sep cs
      else (c # hd (splitOn sep cs)) # tl (splitOn sep cs))"
  using splitOn_nonempty [of sep cs] by (cases "splitOn sep cs") auto

text \<open>A string with \<open>n\<close> separators has \<open>n + 1\<close> pieces.\<close>

lemma length_splitOn: "length (splitOn sep s) = Suc (count_list s sep)"
  using splitOn_nonempty [of sep]
  by (induction s) (simp_all add: splitOn_Cons del: splitOn.simps(2))

text \<open>The pieces are the text between the separators: joined again they give the string.\<close>

lemma joinWith_splitOn: "joinWith sep (splitOn sep s) = s"
proof (induction s)
  case Nil
  then show ?case by simp
next
  case (Cons c cs)
  obtain w ws where w: "splitOn sep cs = w # ws"
    using splitOn_nonempty [of sep cs] by (cases "splitOn sep cs") auto
  with Cons show ?case by (cases ws) auto
qed

lemma splitOn_no_sep: "w \<in> set (splitOn sep s) \<Longrightarrow> sep \<notin> set w"
proof (induction s arbitrary: w)
  case Nil
  then show ?case by simp
next
  case (Cons c cs)
  obtain v vs where v: "splitOn sep cs = v # vs"
    using splitOn_nonempty [of sep cs] by (cases "splitOn sep cs") auto
  with Cons show ?case by (auto split: if_splits)
qed

lemma length_splitFields: "length (splitFields line) = Suc (count_list line (CHR '',''))"
  by (simp add: splitFields_def length_splitOn)

text \<open>
  Claim C6, as the code has it. \<^verbatim>\<open>parseSimpleCsv\<close> trims the whole text, splits it on
  newlines and drops the empty lines (the lines with no character). The first line
  left gives the headers; every later line gives one row. A line is split on commas and
  every field is trimmed. A row has one field more than its line has commas, whatever
  the number of headers: rows are neither padded nor cut.
\<close>

theorem parseSimpleCsv_rows:
  "csvLines t = filter (\<lambda>l. l \<noteq> []) (splitOn (CHR 0x0A) (trim t)) \<and>
   headers (parseSimpleCsv t) =
     map trim (splitOn (CHR '','') (case csvLines t of [] \<Rightarrow> [] | l # _ \<Rightarrow> l)) \<and>
   rows (parseSimpleCsv t) = map (\<lambda>l. map trim (splitOn (CHR '','') l)) (drop 1 (csvLines t)) \<and>
   length (rows (parseSimpleCsv t)) = length (csvLines t) - 1 \<and>
   (\<forall>i < length (rows (parseSimpleCsv t)).
      length (rows (parseSimpleCsv t) ! i) = Suc (count_list (csvLines t ! Suc i) (CHR '','')))"
  by (simp add: parseSimpleCsv_def Let_def splitFields_def [abs_def] length_splitOn csvLines_def)

text \<open>
  A text of four lines, the third one empty: three headers, then a row of two fields
  and a row of four.
\<close>

theorem parseSimpleCsv_rows_witness:
  "rows (parseSimpleCsv ''a, b ,c\<newline>1,2\<newline>\<newline>3,4,5,'') = [[''1'', ''2''], [''3'', ''4'', ''5'', '''']] \<and>
   csvLines ''a, b ,c\<newline>1,2\<newline>\<newline>3,4,5,'' = [''a, b ,c'', ''1,2'', ''3,4,5,''] \<and>
   (1::nat) < length (rows (parseSimpleCsv ''a, b ,c\<newline>1,2\<newline>\<newline>3,4,5,'')) \<and>
   length (rows (parseSimpleCsv ''a, b ,c\<newline>1,2\<newline>\<newline>3,4,5,'') ! 1) =
     Suc (count_list (csvLines ''a, b ,c\<newline>1,2\<newline>\<newline>3,4,5,'' ! Suc 1) (CHR '',''))"
proof -
  let ?t = "''a, b ,c\<newline>1,2\<newline>\<newline>3,4,5,''"
  have r: "rows (parseSimpleCsv ?t) = [[''1'', ''2''], [''3'', ''4'', ''5'', '''']]"
    by code_simp
  have l: "csvLines ?t = [''a, b ,c'', ''1,2'', ''3,4,5,'']"
    by code_simp
  have i: "(1::nat) < length (rows (parseSimpleCsv ?t))"
    by (simp add: r)
  from parseSimpleCsv_rows [of ?t] i
  have "length (rows (parseSimpleCsv ?t) ! 1) = Suc (count_list (csvLines ?t ! Suc 1) (CHR '',''))"
    by blast
  with r l i show ?thesis by blast
qed

text \<open>
  Claim C6 as the specification states it (split on newlines, drop blank lines) differs
  from the code, whichever way a blank line is read. When a blank line is a line of
  white space only, the text \<^verbatim>\<open>"a\n \nb"\<close> has one: the code keeps it, as a row with
  the one field \<^verbatim>\<open>""\<close>. When a blank line is an empty line, the text \<^verbatim>\<open>" \na"\<close> has
  none, and its first line is \<^verbatim>\<open>" "\<close>: the code trims the whole text first and takes
  \<^verbatim>\<open>"a"\<close> as the header line.
\<close>

theorem parseSimpleCsv_blank_line_counterexample:
  "parseSimpleCsv ''a\<newline> \<newline>b'' = \<lparr>headers = [''a''], rows = [[''''], [''b'']]\<rparr> \<and>
   readAsSpecified isBlankLine ''a\<newline> \<newline>b'' = \<lparr>headers = [''a''], rows = [[''b'']]\<rparr> \<and>
   parseSimpleCsv '' \<newline>a'' = \<lparr>headers = [''a''], rows = []\<rparr> \<and>
   readAsSpecified isEmptyLine '' \<newline>a'' = \<lparr>headers = [''''], rows = [[''a'']]\<rparr>"
  by code_simp

section \<open>Properties of the marker dataset builder\<close>

lemma foldl_setAdd_set: "set (foldl setAdd acc xs) = set acc \<union> set xs"
  by (induction xs arbitrary: acc) (auto simp: setAdd_def)

lemma foldl_setAdd_distinct: "distinct acc \<Longrightarrow> distinct (foldl setAdd acc xs)"
  by (induction xs arbitrary: acc) (auto simp: setAdd_def)

lemma set_uniqueValues: "set (uniqueValues xs) = set xs"
  by (simp add: uniqueValues_def foldl_setAdd_set)

lemma distinct_uniqueValues: "distinct (uniqueValues xs)"
  by (simp add: uniqueValues_def foldl_setAdd_distinct)

lemma foldl_setAdd_known: "set xs \<subseteq> set acc \<Longrightarrow> foldl setAdd acc xs = acc"
  by (induction xs arbitrary: acc) (auto simp: setAdd_def)

lemma update_keys_setAdd: "map fst (AList.update k v al) = setAdd (map fst al) k"
  by (simp add: update_keys setAdd_def)

subsection \<open>Grouping the rows of a dataset\<close>

lemma growMap_keys: "map fst (growMap mm rs) = foldl setAdd (map fst mm) (map model rs)"
  by (induction rs arbitrary: mm) (simp_all add: growMap_def update_keys_setAdd)

text \<open>The models of a style are in the order of their first rows.\<close>

lemma growMap_keys_empty: "map fst (growMap [] rs) = uniqueValues (map model rs)"
  by (simp add: growMap_keys uniqueValues_def)

text \<open>The last row of a model gives its score.\<close>

lemma find_append_cases:
  "find P (xs @ ys) = (case find P xs of None \<Rightarrow> find P ys | Some x \<Rightarrow> Some x)"
  by (induction xs) auto

lemma growMap_lookup:
  "map_of (growMap mm rs) m =
     (case find (\<lambda>r. model r = m) (rev rs) of
        Some r \<Rightarrow> Some (accuracy r, rank r)
      | None \<Rightarrow> map_of mm m)"
proof (induction rs arbitrary: mm)
  case Nil
  then show ?case by (simp add: growMap_def)
next
  case (Cons r rs)
  have "growMap mm (r # rs) = growMap (AList.update (model r) (accuracy r, rank r) mm) rs"
    by (simp add: growMap_def)
  then show ?case
    by (simp add: Cons.IH find_append_cases update_conv' split: option.splits)
qed

lemma growMap_has: "map_of (growMap [] rs) m \<noteq> None \<longleftrightarrow> m \<in> model ` set rs"
proof -
  have "find (\<lambda>r. model r = m) (rev rs) = None \<longleftrightarrow> m \<notin> model ` set rs"
    by (auto simp: find_None_iff)
  then show ?thesis by (auto simp: growMap_lookup split: option.splits)
qed

lemma addRow_lookup:
  "map_of (addRow byStyle r) s =
     (if s = marker_style r
      then Some (growMap (case map_of byStyle s of None \<Rightarrow> [] | Some mm \<Rightarrow> mm) [r])
      else map_of byStyle s)"
  by (simp add: addRow_def growMap_def update_conv' split: option.splits)

lemma addRow_keys: "map fst (addRow byStyle r) = setAdd (map fst byStyle) (marker_style r)"
  by (simp add: addRow_def update_keys_setAdd split: option.splits)

lemma growMap_append: "growMap mm (rs @ rs') = growMap (growMap mm rs) rs'"
  by (simp add: growMap_def)

lemma rowsOfStyle_Cons:
  "rowsOfStyle s (r # rs) = (if marker_style r = s then r # rowsOfStyle s rs else rowsOfStyle s rs)"
  by (simp add: rowsOfStyle_def)

lemma growMap_Cons: "growMap mm (r # rs) = growMap (growMap mm [r]) rs"
  by (simp add: growMap_def)

lemma foldl_addRow_lookup:
  "map_of (foldl addRow byStyle rs) s =
     (if map_of byStyle s = None \<and> rowsOfStyle s rs = [] then None
      else Some (growMap (case map_of byStyle s of None \<Rightarrow> [] | Some mm \<Rightarrow> mm)
                   (rowsOfStyle s rs)))"
proof (induction rs arbitrary: byStyle)
  case Nil
  then show ?case by (auto simp: rowsOfStyle_def growMap_def)
next
  case (Cons r rs)
  show ?case
  proof (cases "marker_style r = s")
    case True
    then have "map_of (addRow byStyle r) s
      = Some (growMap (case map_of byStyle s of None \<Rightarrow> [] | Some mm \<Rightarrow> mm) [r])"
      by (simp add: addRow_lookup)
    with True show ?thesis
      by (simp add: Cons.IH rowsOfStyle_Cons growMap_Cons [symmetric])
  next
    case False
    then have "map_of (addRow byStyle r) s = map_of byStyle s"
      by (auto simp: addRow_lookup)
    with False show ?thesis
      by (simp add: Cons.IH rowsOfStyle_Cons)
  qed
qed

lemma foldl_addRow_keys:
  "map fst (foldl addRow byStyle rs) = foldl setAdd (map fst byStyle) (map marker_style rs)"
  by (induction rs arbitrary: byStyle) (simp_all add: addRow_keys)

text \<open>
  The styles of \<open>groupByStyle\<close> are the styles of the rows in the order of first
  appearance, and the model map of a style is built from the rows of that style.
\<close>

lemma groupByStyle_keys:
  "map fst (groupByStyle rs) = uniqueValues (map marker_style rs)"
proof -
  have "map fst (map (\<lambda>style. (style, [])) (uniqueValues (map marker_style rs)))
          = uniqueValues (map marker_style rs)"
    by (simp add: comp_def)
  then show ?thesis
    by (simp add: groupByStyle_def foldl_addRow_keys foldl_setAdd_known set_uniqueValues)
qed

lemma distinct_groupByStyle: "distinct (map fst (groupByStyle rs))"
  by (simp add: groupByStyle_keys distinct_uniqueValues)

lemma groupByStyle_lookup:
  "map_of (groupByStyle rs) s =
     (if s \<in> marker_style ` set rs then Some (growMap [] (rowsOfStyle s rs)) else None)"
proof -
  let ?init = "map (\<lambda>style. (style, [])) (uniqueValues (map marker_style rs))"
  have i: "map_of ?init s = (if s \<in> marker_style ` set rs then Some [] else None)"
    by (auto simp: map_of_map_restrict restrict_map_def set_uniqueValues)
  have e: "s \<notin> marker_style ` set rs \<Longrightarrow> rowsOfStyle s rs = []"
    by (auto simp: rowsOfStyle_def filter_empty_conv)
  show ?thesis
    by (simp add: groupByStyle_def foldl_addRow_lookup i e)
qed

lemma groupByStyle_entry:
  "(s, mm) \<in> set (groupByStyle rs) \<longleftrightarrow>
     s \<in> marker_style ` set rs \<and> mm = growMap [] (rowsOfStyle s rs)"
proof -
  have "(s, mm) \<in> set (groupByStyle rs) \<longleftrightarrow> map_of (groupByStyle rs) s = Some mm"
    using distinct_groupByStyle [of rs] by simp
  then show ?thesis by (auto simp: groupByStyle_lookup)
qed

lemma hasRow_iff: "hasRow rs s m \<longleftrightarrow> (\<exists>r \<in> set rs. marker_style r = s \<and> model r = m)"
  by (simp add: hasRow_def list_ex_iff)

lemma growMap_hasRow: "map_of (growMap [] (rowsOfStyle s rs)) m \<noteq> None \<longleftrightarrow> hasRow rs s m"
  unfolding growMap_has hasRow_iff by (auto simp: rowsOfStyle_def)

text \<open>A model passes the filter exactly when every style of the dataset has a row for it.\<close>

lemma inEveryStyle_iff:
  "inEveryStyle (groupByStyle rs) m \<longleftrightarrow> (\<forall>s \<in> marker_style ` set rs. hasRow rs s m)"
proof -
  have "inEveryStyle (groupByStyle rs) m \<longleftrightarrow>
          (\<forall>s mm. (s, mm) \<in> set (groupByStyle rs) \<longrightarrow> map_of mm m \<noteq> None)"
    by (auto simp: inEveryStyle_def list_all_iff)
  also have "\<dots> \<longleftrightarrow> (\<forall>s \<in> marker_style ` set rs.
                        map_of (growMap [] (rowsOfStyle s rs)) m \<noteq> None)"
    unfolding groupByStyle_entry by blast
  finally show ?thesis unfolding growMap_hasRow .
qed

subsection \<open>Projecting the styles\<close>

lemma those_map_Some:
  "those (map f xs) = Some ys \<Longrightarrow>
     length ys = length xs \<and> (\<forall>i < length xs. f (xs ! i) = Some (ys ! i))"
proof (induction xs arbitrary: ys)
  case Nil
  then show ?case by simp
next
  case (Cons x xs)
  then obtain y ys' where y: "f x = Some y" and ys': "those (map f xs) = Some ys'"
    and ys: "ys = y # ys'"
    by (auto split: option.splits)
  from Cons.IH [OF ys'] y ys show ?case by (auto simp: nth_Cons split: nat.splits)
qed

lemma those_map_total: "(\<forall>x \<in> set xs. f x \<noteq> None) \<Longrightarrow> \<exists>ys. those (map f xs) = Some ys"
  by (induction xs) auto

lemma project_aligned:
  assumes "project modelMap models = Inr sd"
  shows "length (accuracies sd) = length models \<and> length (ranks sd) = length models \<and>
         (\<forall>i < length models.
            map_of modelMap (models ! i) = Some (accuracies sd ! i, ranks sd ! i))"
proof -
  from assms obtain scores where s: "those (map (map_of modelMap) models) = Some scores"
    and sd: "sd = \<lparr> accuracies = map fst scores, ranks = map snd scores \<rparr>"
    by (auto simp: project_def split: option.splits)
  from those_map_Some [OF s] sd show ?thesis by simp
qed

lemma project_total:
  "(\<forall>m \<in> set models. map_of modelMap m \<noteq> None) \<Longrightarrow> \<exists>sd. project modelMap models = Inr sd"
  using those_map_total [of models "map_of modelMap"] by (auto simp: project_def)

lemma addStyles_total:
  "(\<forall>(style, modelMap) \<in> set byStyle. \<forall>m \<in> set models. map_of modelMap m \<noteq> None) \<Longrightarrow>
     \<exists>obj'. addStyles obj models byStyle = Inr obj'"
proof (induction byStyle arbitrary: obj)
  case Nil
  then show ?case by simp
next
  case (Cons p byStyle)
  obtain style modelMap where p: "p = (style, modelMap)" by (cases p)
  with Cons.prems have "\<forall>m \<in> set models. map_of modelMap m \<noteq> None" by auto
  then obtain sd where sd: "project modelMap models = Inr sd" using project_total by blast
  from Cons.prems have "\<forall>(style, modelMap) \<in> set byStyle. \<forall>m \<in> set models. map_of modelMap m \<noteq> None"
    by auto
  from Cons.IH [OF this] p sd show ?case by simp
qed

lemma addStyles_other:
  "addStyles obj models byStyle = Inr obj' \<Longrightarrow> k \<notin> fst ` set byStyle \<Longrightarrow>
     map_of obj' k = map_of obj k"
proof (induction byStyle arbitrary: obj)
  case Nil
  then show ?case by simp
next
  case (Cons p byStyle)
  obtain style modelMap where p: "p = (style, modelMap)" by (cases p)
  with Cons.prems obtain sd where sd: "project modelMap models = Inr sd"
    and r: "addStyles (AList.update style (Style sd) obj) models byStyle = Inr obj'"
    by (auto split: sum.splits)
  from Cons.prems p have k: "k \<noteq> style" "k \<notin> fst ` set byStyle" by auto
  from Cons.IH [OF r k(2)] k(1) show ?case by (simp add: update_conv')
qed

lemma addStyles_style:
  "addStyles obj models byStyle = Inr obj' \<Longrightarrow> distinct (map fst byStyle) \<Longrightarrow>
   map_of byStyle k = Some modelMap \<Longrightarrow>
     \<exists>sd. project modelMap models = Inr sd \<and> map_of obj' k = Some (Style sd)"
proof (induction byStyle arbitrary: obj)
  case Nil
  then show ?case by simp
next
  case (Cons p byStyle)
  obtain style mm where p: "p = (style, mm)" by (cases p)
  with Cons.prems obtain sd where sd: "project mm models = Inr sd"
    and r: "addStyles (AList.update style (Style sd) obj) models byStyle = Inr obj'"
    by (auto split: sum.splits)
  from Cons.prems p have d: "distinct (map fst byStyle)" and n: "style \<notin> fst ` set byStyle"
    by auto
  show ?case
  proof (cases "k = style")
    case True
    with Cons.prems p have "modelMap = mm" by simp
    moreover from addStyles_other [OF r n] have "map_of obj' style = Some (Style sd)"
      by (simp add: update_conv')
    ultimately show ?thesis using sd True by simp
  next
    case False
    with Cons.prems p have "map_of byStyle k = Some modelMap" by simp
    from Cons.IH [OF r d this] show ?thesis .
  qed
qed

text \<open>Every property of the result was in the object before or is a projected style.\<close>

lemma addStyles_lookup:
  "addStyles obj models byStyle = Inr obj' \<Longrightarrow> map_of obj' k = Some v \<Longrightarrow>
     map_of obj k = Some v \<or> (\<exists>modelMap sd. project modelMap models = Inr sd \<and> v = Style sd)"
proof (induction byStyle arbitrary: obj)
  case Nil
  then show ?case by simp
next
  case (Cons p byStyle)
  obtain style mm where p: "p = (style, mm)" by (cases p)
  with Cons.prems obtain sd where sd: "project mm models = Inr sd"
    and r: "addStyles (AList.update style (Style sd) obj) models byStyle = Inr obj'"
    by (auto split: sum.splits)
  from Cons.IH [OF r Cons.prems(2)] sd show ?case
    by (auto simp: update_conv' split: if_splits)
qed

subsection \<open>The object of a dataset\<close>

lemma commonModels_every:
  "\<forall>(style, modelMap) \<in> set byStyle.
     \<forall>m \<in> set (commonModels byStyle rs). map_of modelMap m \<noteq> None"
  by (auto simp: commonModels_def inEveryStyle_def list_all_iff)

text \<open>
  The filter does what its comment says: no projection reads a model that a style
  lacks, so building the object of a dataset never throws.
\<close>

lemma buildDataset_total: "\<exists>obj. buildDataset rs = Inr obj"
  unfolding buildDataset_def Let_def
  by (rule addStyles_total) (rule commonModels_every)

text \<open>The candidate models: those of the default style, or those of all rows.\<close>

lemma defaultModels_groupByStyle:
  "defaultModels (groupByStyle rs) rs =
     (if ''default'' \<in> marker_style ` set rs
      then uniqueValues (map model (rowsOfStyle ''default'' rs))
      else uniqueValues (map model rs))"
  by (simp add: defaultModels_def groupByStyle_lookup growMap_keys_empty)

lemma commonModels_groupByStyle:
  "commonModels (groupByStyle rs) rs =
     filter (\<lambda>m. \<forall>s \<in> marker_style ` set rs. hasRow rs s m)
       (if ''default'' \<in> marker_style ` set rs
        then uniqueValues (map model (rowsOfStyle ''default'' rs))
        else uniqueValues (map model rs))"
  unfolding commonModels_def defaultModels_groupByStyle
  by (rule filter_cong) (simp_all add: inEveryStyle_iff)

text \<open>
  When no style of the dataset is called \<^verbatim>\<open>models\<close>, the property \<^verbatim>\<open>models\<close> of the
  object is the filtered list of candidates.
\<close>

lemma buildDataset_models:
  assumes "buildDataset rs = Inr obj" and "''models'' \<notin> marker_style ` set rs"
  shows "map_of obj ''models'' = Some (Models (commonModels (groupByStyle rs) rs))"
proof -
  have "fst ` set (groupByStyle rs) = marker_style ` set rs"
    using groupByStyle_keys [of rs] set_uniqueValues [of "map marker_style rs"]
    by (metis list.set_map)
  with assms(2) have "''models'' \<notin> fst ` set (groupByStyle rs)" by simp
  from addStyles_other [OF assms(1) [unfolded buildDataset_def Let_def] this]
  show ?thesis by simp
qed

text \<open>Every style of the dataset is a property of the object: its projection.\<close>

lemma buildDataset_style:
  assumes "buildDataset rs = Inr obj" and "s \<in> marker_style ` set rs"
  shows "\<exists>sd. map_of obj s = Some (Style sd) \<and>
           project (growMap [] (rowsOfStyle s rs)) (commonModels (groupByStyle rs) rs) = Inr sd"
proof -
  from assms(2) have "map_of (groupByStyle rs) s = Some (growMap [] (rowsOfStyle s rs))"
    by (simp add: groupByStyle_lookup)
  from addStyles_style [OF assms(1) [unfolded buildDataset_def Let_def]
      distinct_groupByStyle this]
  show ?thesis by blast
qed

text \<open>
  Whenever the object has a list of models, the arrays of each of its styles are as
  long as that list.
\<close>

lemma buildDataset_aligned:
  assumes b: "buildDataset rs = Inr obj"
    and m: "map_of obj ''models'' = Some (Models ms)"
    and s: "map_of obj k = Some (Style sd)"
  shows "length (accuracies sd) = length ms \<and> length (ranks sd) = length ms"
proof -
  let ?ms = "commonModels (groupByStyle rs) rs"
  note a = b [unfolded buildDataset_def Let_def]
  from addStyles_lookup [OF a m] have ms: "ms = ?ms"
    by (auto split: if_splits)
  from addStyles_lookup [OF a s] obtain mm where "project mm ?ms = Inr sd"
    by (auto split: if_splits)
  from project_aligned [OF this] ms show ?thesis by simp
qed

subsection \<open>The datasets\<close>

lemma buildDatasets_total: "\<exists>data'. buildDatasets data rs ds = Inr data'"
proof (induction ds arbitrary: data)
  case Nil
  then show ?case by simp
next
  case (Cons d ds)
  obtain obj where "buildDataset (filter (\<lambda>row. dataset row = d) rs) = Inr obj"
    using buildDataset_total by blast
  with Cons.IH [of "AList.update d obj data"] show ?case by simp
qed

lemma buildDatasets_lookup:
  "buildDatasets data rs ds = Inr data' \<Longrightarrow>
     map_of data' d =
       (if d \<in> set ds
        then (case buildDataset (filter (\<lambda>row. dataset row = d) rs) of
                Inr obj \<Rightarrow> Some obj | Inl e \<Rightarrow> None)
        else map_of data d)"
proof (induction ds arbitrary: data)
  case Nil
  then show ?case by simp
next
  case (Cons d0 ds)
  from Cons.prems obtain obj where
    o: "buildDataset (filter (\<lambda>row. dataset row = d0) rs) = Inr obj"
    and r: "buildDatasets (AList.update d0 obj data) rs ds = Inr data'"
    by (auto split: sum.splits)
  from Cons.IH [OF r] o show ?case by (auto simp: update_conv')
qed

text \<open>The builder never throws.\<close>

lemma buildMarkerData_total: "\<exists>data. buildMarkerData rs = Inr data"
  by (simp add: buildMarkerData_def buildDatasets_total)

text \<open>
  The datasets of the result are the datasets of the rows, each with the object built
  from its rows.
\<close>

lemma buildMarkerData_lookup:
  assumes "buildMarkerData rs = Inr data"
  shows "map_of data d =
           (if d \<in> dataset ` set rs
            then (case buildDataset (filter (\<lambda>row. dataset row = d) rs) of
                    Inr obj \<Rightarrow> Some obj | Inl e \<Rightarrow> None)
            else None)"
  using buildDatasets_lookup [OF assms [unfolded buildMarkerData_def], of d]
  by (simp add: set_uniqueValues)

lemma buildMarkerData_dataset:
  assumes "buildMarkerData rs = Inr data" and "map_of data d = Some obj"
  shows "buildDataset (filter (\<lambda>row. dataset row = d) rs) = Inr obj"
  using buildMarkerData_lookup [OF assms(1), of d] assms(2)
  by (auto split: if_splits sum.splits)

lemma buildMarkerData_aligned:
  assumes "buildMarkerData rs = Inr data" and "map_of data d = Some obj"
    and "map_of obj ''models'' = Some (Models ms)" and "map_of obj k = Some (Style sd)"
  shows "length (accuracies sd) = length ms \<and> length (ranks sd) = length ms"
  using buildDataset_aligned [OF buildMarkerData_dataset [OF assms(1,2)] assms(3,4)] .

section \<open>The list of models and the aligned arrays\<close>

text \<open>
  For a dataset none of whose styles is called \<^verbatim>\<open>models\<close>, the builder's list of
  models is the list of candidates (the models of the default style in the order of
  first appearance, or all models of the dataset when it has no default style) without
  the models that some style of the dataset has no row for.
\<close>

lemma buildMarkerData_models:
  assumes b: "buildMarkerData rs = Inr data" and d: "d \<in> dataset ` set rs"
    and n: "\<forall>r \<in> set rs. dataset r = d \<longrightarrow> marker_style r \<noteq> ''models''"
  shows "\<exists>obj. map_of data d = Some obj \<and>
     map_of obj ''models'' =
       Some (Models
         (let ds = filter (\<lambda>row. dataset row = d) rs in
          filter (\<lambda>m. \<forall>s \<in> marker_style ` set ds. hasRow ds s m)
            (if ''default'' \<in> marker_style ` set ds
             then uniqueValues (map model (rowsOfStyle ''default'' ds))
             else uniqueValues (map model ds))))"
proof -
  let ?ds = "filter (\<lambda>row. dataset row = d) rs"
  obtain obj where o: "buildDataset ?ds = Inr obj" using buildDataset_total by blast
  with buildMarkerData_lookup [OF b, of d] d have l: "map_of data d = Some obj" by simp
  from n have "''models'' \<notin> marker_style ` set ?ds" by auto
  from buildDataset_models [OF o this] l show ?thesis
    by (simp add: commonModels_groupByStyle Let_def)
qed

text \<open>
  For such a dataset, each style is a property of the object, with arrays as long as
  the list of models, and the entries at index \<open>i\<close> are the accuracy and the rank of
  the last row of that style for the model at index \<open>i\<close>.
\<close>

lemma buildMarkerData_styles:
  assumes b: "buildMarkerData rs = Inr data" and d: "map_of data d = Some obj"
    and m: "map_of obj ''models'' = Some (Models ms)"
    and s: "s \<in> marker_style ` set (filter (\<lambda>row. dataset row = d) rs)"
    and i: "i < length ms"
  shows "\<exists>sd r. map_of obj s = Some (Style sd) \<and>
     length (accuracies sd) = length ms \<and> length (ranks sd) = length ms \<and>
     find (\<lambda>r. model r = ms ! i) (rev (rowsOfStyle s (filter (\<lambda>row. dataset row = d) rs))) = Some r \<and>
     accuracies sd ! i = accuracy r \<and> ranks sd ! i = rank r"
proof -
  let ?ds = "filter (\<lambda>row. dataset row = d) rs"
  let ?ms = "commonModels (groupByStyle ?ds) ?ds"
  note o = buildMarkerData_dataset [OF b d]
  from addStyles_lookup [OF o [unfolded buildDataset_def Let_def] m] have ms: "ms = ?ms"
    by (auto split: if_splits)
  from buildDataset_style [OF o s] obtain sd where
    sd: "map_of obj s = Some (Style sd)"
    and p: "project (growMap [] (rowsOfStyle s ?ds)) ?ms = Inr sd"
    by blast
  from project_aligned [OF p] i ms have
    l: "length (accuracies sd) = length ms" "length (ranks sd) = length ms"
    and e: "map_of (growMap [] (rowsOfStyle s ?ds)) (ms ! i) = Some (accuracies sd ! i, ranks sd ! i)"
    by simp_all
  from e obtain r where
    "find (\<lambda>r. model r = ms ! i) (rev (rowsOfStyle s ?ds)) = Some r"
    "accuracies sd ! i = accuracy r" "ranks sd ! i = rank r"
    by (auto simp: growMap_lookup split: option.splits)
  with sd l show ?thesis by blast
qed

text \<open>
  The scenario of section 8 for the builder: the dataset \<^verbatim>\<open>DA2k\<close> with the styles
  \<^verbatim>\<open>default\<close> and \<^verbatim>\<open>color_blue\<close> and the models \<^verbatim>\<open>A\<close> and \<^verbatim>\<open>B\<close>, \<^verbatim>\<open>B\<close> missing from
  \<^verbatim>\<open>color_blue\<close>. The list of models is \<^verbatim>\<open>["A"]\<close>.
\<close>

lemma buildMarkerData_scenario:
  "buildMarkerData
     [markerRecord ''DA2k'' ''default'' ''A'' 80 2,
      markerRecord ''DA2k'' ''default'' ''B'' 90 1,
      markerRecord ''DA2k'' ''color_blue'' ''A'' 82 1] =
   Inr [(''DA2k'',
         [(''models'', Models [''A'']),
          (''default'', Style \<lparr> accuracies = [80], ranks = [2] \<rparr>),
          (''color_blue'', Style \<lparr> accuracies = [82], ranks = [1] \<rparr>)])]"
  by (simp add: markerRecord_def buildMarkerData_def uniqueValues_def
        setAdd_def buildDataset_def groupByStyle_def addRow_def commonModels_def
        defaultModels_def inEveryStyle_def project_def)

text \<open>
  Claim C1 on the code. The builder stores the list of models and every style in one
  object, the list under the name \<^verbatim>\<open>models\<close> and a style under its own name. For rows
  with a style called \<^verbatim>\<open>models\<close> (the normalizer maps \<^verbatim>\<open>"models"\<close> to itself) the list
  that the filter computed, \<^verbatim>\<open>["A"]\<close> here, is overwritten by the arrays of that style:
  the object returned for the dataset has no list of models.
\<close>

theorem buildMarkerData_models_overwritten:
  "normalizeMarkerStyleKey ''models'' = ''models'' \<and>
   commonModels
     (groupByStyle [markerRecord ''DA2k'' ''default'' ''A'' 80 1,
                    markerRecord ''DA2k'' ''models'' ''A'' 70 2])
     [markerRecord ''DA2k'' ''default'' ''A'' 80 1,
      markerRecord ''DA2k'' ''models'' ''A'' 70 2] = [''A''] \<and>
   buildMarkerData
     [markerRecord ''DA2k'' ''default'' ''A'' 80 1,
      markerRecord ''DA2k'' ''models'' ''A'' 70 2] =
   Inr [(''DA2k'',
         [(''models'', Style \<lparr> accuracies = [70], ranks = [2] \<rparr>),
          (''default'', Style \<lparr> accuracies = [80], ranks = [1] \<rparr>)])]"
proof -
  have "normalizeMarkerStyleKey ''models'' = ''models''" by code_simp
  then show ?thesis
    by (simp add: markerRecord_def buildMarkerData_def uniqueValues_def
        setAdd_def buildDataset_def groupByStyle_def addRow_def commonModels_def
        defaultModels_def inEveryStyle_def project_def)
qed

text \<open>
  Claim C2 on the code, for the same reason. With a style called \<^verbatim>\<open>models\<close> the
  property \<^verbatim>\<open>models\<close> of the dataset object is that style's pair of arrays, not a list
  of models: the arrays of the styles have length 2 here, and there is no list whose
  length or whose entries they could agree with.
\<close>

theorem buildMarkerData_no_models_list:
  "buildMarkerData
     [markerRecord ''SPair'' ''default'' ''A'' 80 1,
      markerRecord ''SPair'' ''default'' ''B'' 60 2,
      markerRecord ''SPair'' ''models'' ''A'' 70 2,
      markerRecord ''SPair'' ''models'' ''B'' 75 1] =
   Inr [(''SPair'',
         [(''models'', Style \<lparr> accuracies = [70, 75], ranks = [2, 1] \<rparr>),
          (''default'', Style \<lparr> accuracies = [80, 60], ranks = [1, 2] \<rparr>)])]"
  by (simp add: markerRecord_def buildMarkerData_def uniqueValues_def
        setAdd_def buildDataset_def groupByStyle_def addRow_def commonModels_def
        defaultModels_def inEveryStyle_def project_def)

section \<open>Properties of the visualization updater\<close>

lemma elemAt_in: "i < length xs \<Longrightarrow> elemAt xs i = Some (xs ! i)"
  by (simp add: elemAt_def)

subsection \<open>Subtraction of doubles\<close>

lemma roundHalfEven_of_int: "roundHalfEven (of_int k) = k"
  by (simp add: roundHalfEven_def)

text \<open>The exponent: \<open>2 ^ ilog2 x\<close> is the power of two at or below \<open>x\<close>.\<close>

lemma ilog2_bounds: "0 < x \<Longrightarrow> 2 powi ilog2 x \<le> x \<and> x < 2 powi (ilog2 x + 1)"
proof (induction x rule: ilog2.induct)
  case (1 x)
  show ?case
  proof (cases "2 \<le> x")
    case True
    then have e: "ilog2 x = ilog2 (x / 2) + 1" by (subst ilog2.simps) simp
    from 1(1) [OF True] 1(3) have "2 powi ilog2 (x / 2) \<le> x / 2 \<and> x / 2 < 2 powi (ilog2 (x / 2) + 1)"
      by simp
    then show ?thesis unfolding e by (simp add: power_int_add)
  next
    case False
    show ?thesis
    proof (cases "x < 1")
      case True
      with False 1(3) have e: "ilog2 x = ilog2 (2 * x) - 1" by (subst ilog2.simps) simp
      from 1(2) [OF False] True 1(3)
      have "2 powi ilog2 (2 * x) \<le> 2 * x \<and> 2 * x < 2 powi (ilog2 (2 * x) + 1)" by simp
      then show ?thesis unfolding e by (simp add: power_int_add power_int_diff)
    next
      case g: False
      with False have e: "ilog2 x = 0" by (subst ilog2.simps) simp
      from g False show ?thesis unfolding e by simp
    qed
  qed
qed

lemma ilog2_floor_log: "0 < x \<Longrightarrow> ilog2 x = \<lfloor>log 2 x\<rfloor>"
proof -
  assume x: "0 < x"
  from ilog2_bounds [OF x] have lo: "2 powi ilog2 x \<le> x" and hi: "x < 2 powi (ilog2 x + 1)"
    by simp_all
  have "real_of_int (ilog2 x) \<le> log 2 x"
    using lo x by (simp add: le_log_iff powr_real_of_int')
  moreover have "log 2 x < real_of_int (ilog2 x + 1)"
    using hi x by (simp add: log_less_iff powr_real_of_int' del: of_int_add)
  ultimately show ?thesis by (simp add: floor_eq_iff [THEN iffD2])
qed

text \<open>An integer below \<open>2 ^ 53\<close> in magnitude is a double: rounding leaves it as it is.\<close>

lemma round64_of_int:
  assumes "\<bar>n\<bar> < 2 ^ 53"
  shows "round64 (of_int n) = Finite (of_int n)"
proof (cases "n = 0")
  case True
  then show ?thesis by (simp add: round64_def)
next
  case False
  define a :: real where "a = \<bar>of_int n\<bar>"
  define E where "E = ilog2 a"
  have a1: "1 \<le> a" using False by (simp add: a_def)
  have a2: "a < 2 ^ 53"
  proof -
    have "real_of_int \<bar>n\<bar> < real_of_int (2 ^ 53)" using assms by (simp only: of_int_less_iff)
    then show ?thesis by (simp add: a_def)
  qed
  from a1 have "0 < a" by simp
  from ilog2_bounds [OF this] have lo: "2 powi E \<le> a" and hi: "a < 2 powi (E + 1)"
    by (simp_all add: E_def)
  have E0: "0 \<le> E"
  proof (rule ccontr)
    assume "\<not> 0 \<le> E"
    then have "E + 1 \<le> 0" by simp
    then have "(2::real) powi (E + 1) \<le> 2 powi 0" by (rule power_int_increasing) simp
    with hi a1 show False by simp
  qed
  have E1: "E \<le> 52"
  proof (rule ccontr)
    assume "\<not> E \<le> 52"
    then have "53 \<le> E" by simp
    then have "(2::real) powi 53 \<le> 2 powi E" by (rule power_int_increasing) simp
    with lo a2 show False by simp
  qed
  define k where "k = nat (52 - E)"
  have ulp: "(2::real) powi (E - 52) = 1 / 2 ^ k"
    using E1 by (simp add: power_int_def k_def field_simps)
  have q: "real_of_int n / (2 powi (E - 52)) = real_of_int (n * 2 ^ k)"
    by (simp add: ulp)
  have r: "roundHalfEven (real_of_int n / (2 powi (E - 52))) = n * 2 ^ k"
    unfolding q by (rule roundHalfEven_of_int)
  have y: "real_of_int (n * 2 ^ k) * (2 powi (E - 52)) = real_of_int n"
    by (simp add: ulp)
  have big: "\<not> (2 ^ 1024 \<le> \<bar>real_of_int n\<bar>)"
  proof -
    have "(2::real) ^ 53 \<le> 2 ^ 1024" by (rule power_increasing) simp_all
    then show ?thesis using a2 by (simp add: a_def)
  qed
  have m: "max E (- 1022) = E" using E0 by simp
  show ?thesis
    using False big unfolding round64_def
    by (simp add: Let_def a_def [symmetric] E_def [symmetric] m r y del: of_int_mult of_int_power)
qed

lemma sub64_of_int:
  "\<bar>a - b\<bar> < 2 ^ 53 \<Longrightarrow> sub64 (of_int a) (of_int b) = Finite (of_int (a - b))"
  using round64_of_int [of "a - b"] by (simp add: sub64_def)

lemma sub64_same: "sub64 a a = Finite 0"
  by (simp add: sub64_def round64_def)

text \<open>
  Above \<open>2 ^ 53\<close> the doubles are the even integers: \<open>2 ^ 53 + 1\<close> lies midway between
  two of them, and the difference \<open>(2 ^ 53 + 2) - 1\<close> is rounded to the even one,
  \<open>2 ^ 53\<close>.
\<close>

lemma round64_tie: "round64 9007199254740993 = Finite 9007199254740992"
  by code_simp

lemma sub64_rounds: "sub64 9007199254740994 1 = Finite 9007199254740992"
  using round64_tie by (simp add: sub64_def)

lemma tableRow_rounds:
  "rankDelta (tableRow [''A''] [1] [9007199254740994] 0) = Some (Finite 9007199254740992)"
  using sub64_rounds by (simp add: tableRow_def elemAt_def numSub_def Let_def)

subsection \<open>Colours\<close>

lemma deltaColor_up: "deltaColor d = ''#10b981'' \<longleftrightarrow> (\<exists>x. d = Some x \<and> isPositive x)"
  by (auto simp: deltaColor_def split: option.splits)

lemma deltaColor_down: "deltaColor d = ''#ef4444'' \<longleftrightarrow> (\<exists>x. d = Some x \<and> isNegative x)"
  by (auto simp: deltaColor_def isPositive_def isNegative_def split: option.splits number.splits)

lemma deltaColor_neutral: "deltaColor (Some x) = ''#6b7280'' \<longleftrightarrow> x = Finite 0"
  by (auto simp: deltaColor_def isPositive_def isNegative_def split: number.splits)

subsection \<open>Reading properties\<close>

lemma getProperty_own: "map_of obj name = Some v \<Longrightarrow> getProperty obj name = Some (Own v)"
  by (simp add: getProperty_def)

lemma getDataset_own: "map_of data name = Some obj \<Longrightarrow> getDataset data name = Some (Own obj)"
  by (simp add: getDataset_def)

subsection \<open>The updater on a dataset object with its list of models\<close>

text \<open>
  The updater on an object with a list of models, a default style and the selected
  style, all arrays as long as the list of models.
\<close>

lemma updateVisualizationOn_styles:
  assumes m: "map_of obj ''models'' = Some (Models ms)"
    and df: "map_of obj ''default'' = Some (Style dflt)"
    and sl: "map_of obj markerKey = Some (Style sel)"
    and la: "length (accuracies dflt) = length ms" "length (accuracies sel) = length ms"
    and lr: "length (ranks dflt) = length ms" "length (ranks sel) = length ms"
  shows "updateVisualizationOn obj currentDataset markerKey hasTableBody =
     Inr \<lparr> deltas = map (\<lambda>i. Some (sub64 (accuracies sel ! i) (accuracies dflt ! i)))
                      [0..<length ms],
           deltaColors =
             map (\<lambda>i. deltaColor (Some (sub64 (accuracies sel ! i) (accuracies dflt ! i))))
               [0..<length ms],
           defaultBars = Some (accuracies dflt),
           selectedBars = Some (accuracies sel),
           yRange = (if currentDataset = ''DA2k'' then (45, 100) else (20, 100)),
           tableRows =
             (if hasTableBody
              then Some (map (\<lambda>i. \<lparr> rowModel = ms ! i, selectedRank = Some (ranks sel ! i),
                     rankDelta = Some (sub64 (of_int (ranks dflt ! i)) (of_int (ranks sel ! i))),
                     deltaClass =
                       rankClass (Some (sub64 (of_int (ranks dflt ! i)) (of_int (ranks sel ! i)))) \<rparr>)
                           [0..<length ms])
              else None) \<rparr>"
proof -
  have d: "accuracyDeltas ms (Some (Own (Style sel))) (Some (Own (Style dflt))) =
             Inr (map (\<lambda>i. Some (sub64 (accuracies sel ! i) (accuracies dflt ! i)))
                    [0..<length ms])"
    using la by (simp add: accuracyDeltas_def accuraciesOf_def numSub_def elemAt_in)
  have t: "leaderboard ms (Some (Own (Style sel))) (Some (Own (Style dflt))) =
             Inr (map (\<lambda>i. \<lparr> rowModel = ms ! i, selectedRank = Some (ranks sel ! i),
                     rankDelta = Some (sub64 (of_int (ranks dflt ! i)) (of_int (ranks sel ! i))),
                     deltaClass =
                       rankClass (Some (sub64 (of_int (ranks dflt ! i)) (of_int (ranks sel ! i)))) \<rparr>)
                      [0..<length ms])"
    using la lr
    by (simp add: leaderboard_def accuraciesOf_def ranksOf_def tableRow_def numSub_def
        elemAt_in Let_def)
  show ?thesis
    by (simp add: updateVisualizationOn_def Let_def getProperty_own [OF m]
        getProperty_own [OF df] getProperty_own [OF sl] d t accuraciesOf_def comp_def)
qed

text \<open>
  The deltas, for a dataset object that the builder returned with its list of models,
  a default style and the selected style. The updater does not throw. The
  accuracy delta of the model at index \<open>i\<close> is the selected accuracy minus the default
  accuracy, a difference of doubles; its colour is the "up" colour \<^verbatim>\<open>#10b981\<close> exactly
  when the delta is positive, the "down" colour \<^verbatim>\<open>#ef4444\<close> exactly when it is negative
  and the neutral colour \<^verbatim>\<open>#6b7280\<close> exactly when it is zero (a plain comparison with
  zero, no tolerance). The rank delta of the table row is the default rank minus the
  selected rank.
\<close>

lemma updateVisualization_deltas:
  assumes b: "buildMarkerData rs = Inr data"
    and d: "map_of data currentDataset = Some obj"
    and m: "map_of obj ''models'' = Some (Models ms)"
    and df: "map_of obj ''default'' = Some (Style dflt)"
    and sl: "map_of obj markerKey = Some (Style sel)"
  shows "\<exists>viz. updateVisualization (Some data) currentDataset markerKey True = Some (Inr viz) \<and>
     length (deltas viz) = length ms \<and> length (deltaColors viz) = length ms \<and>
     (\<exists>table. tableRows viz = Some table \<and> length table = length ms \<and>
     (\<forall>i < length ms.
        deltas viz ! i = Some (sub64 (accuracies sel ! i) (accuracies dflt ! i)) \<and>
        (deltaColors viz ! i = ''#10b981'' \<longleftrightarrow>
           isPositive (sub64 (accuracies sel ! i) (accuracies dflt ! i))) \<and>
        (deltaColors viz ! i = ''#ef4444'' \<longleftrightarrow>
           isNegative (sub64 (accuracies sel ! i) (accuracies dflt ! i))) \<and>
        (deltaColors viz ! i = ''#6b7280'' \<longleftrightarrow>
           sub64 (accuracies sel ! i) (accuracies dflt ! i) = Finite 0) \<and>
        rowModel (table ! i) = ms ! i \<and>
        rankDelta (table ! i) = Some (sub64 (of_int (ranks dflt ! i)) (of_int (ranks sel ! i)))))"
proof -
  from buildMarkerData_aligned [OF b d m df] buildMarkerData_aligned [OF b d m sl]
  have l: "length (accuracies dflt) = length ms" "length (accuracies sel) = length ms"
    "length (ranks dflt) = length ms" "length (ranks sel) = length ms"
    by simp_all
  note u = updateVisualizationOn_styles [OF m df sl l, of currentDataset True]
  show ?thesis
    by (simp add: updateVisualization_def getDataset_own [OF d] u deltaColor_up deltaColor_down
        deltaColor_neutral)
qed

text \<open>
  The scenario of section 8 for the updater: the delta of \<^verbatim>\<open>M1\<close> between the style
  \<^verbatim>\<open>x\<close> and the default is \<open>82 - 80 = 2\<close>, its colour is the "up" colour, and its rank
  delta is \<open>2 - 1 = 1\<close>.
\<close>

lemma updateVisualization_scenario:
  "buildMarkerData scenarioRecords =
     Inr [(''style_a'',
           [(''models'', Models [''M1'', ''M2'']),
            (''default'', Style \<lparr> accuracies = [80, 90], ranks = [2, 1] \<rparr>),
            (''x'', Style \<lparr> accuracies = [82, 85], ranks = [1, 2] \<rparr>)])] \<and>
   (\<exists>viz table.
      updateVisualization (Some [(''style_a'',
           [(''models'', Models [''M1'', ''M2'']),
            (''default'', Style \<lparr> accuracies = [80, 90], ranks = [2, 1] \<rparr>),
            (''x'', Style \<lparr> accuracies = [82, 85], ranks = [1, 2] \<rparr>)])])
        ''style_a'' ''x'' True = Some (Inr viz) \<and>
      deltas viz ! 0 = Some (Finite 2) \<and> deltaColors viz ! 0 = ''#10b981'' \<and>
      tableRows viz = Some table \<and> rowModel (table ! 0) = ''M1'' \<and>
      rankDelta (table ! 0) = Some (Finite 1))"
proof -
  let ?obj = "[(''models'', Models [''M1'', ''M2'']),
            (''default'', Style \<lparr> accuracies = [80, 90], ranks = [2, 1] \<rparr>),
            (''x'', Style \<lparr> accuracies = [82, 85], ranks = [1, 2] \<rparr>)]"
  have b: "buildMarkerData scenarioRecords = Inr [(''style_a'', ?obj)]"
    by (simp add: scenarioRecords_def markerRecord_def buildMarkerData_def uniqueValues_def
        setAdd_def buildDataset_def groupByStyle_def addRow_def commonModels_def
        defaultModels_def inEveryStyle_def project_def)
  have d: "map_of [(''style_a'', ?obj)] ''style_a'' = Some ?obj" by simp
  have m: "map_of ?obj ''models'' = Some (Models [''M1'', ''M2''])" by simp
  have df: "map_of ?obj ''default'' = Some (Style \<lparr> accuracies = [80, 90], ranks = [2, 1] \<rparr>)"
    by simp
  have sl: "map_of ?obj ''x'' = Some (Style \<lparr> accuracies = [82, 85], ranks = [1, 2] \<rparr>)"
    by simp
  have s2: "sub64 82 80 = Finite 2" using sub64_of_int [of 82 80] by simp
  have s1: "sub64 2 1 = Finite 1" using sub64_of_int [of 2 1] by simp
  from updateVisualization_deltas [OF b d m df sl]
  obtain viz table where
    v: "updateVisualization (Some [(''style_a'', ?obj)]) ''style_a'' ''x'' True = Some (Inr viz)"
    and t: "tableRows viz = Some table"
    and a: "\<forall>i < length [''M1'', ''M2''].
        deltas viz ! i = Some (sub64 (accuracies \<lparr> accuracies = [82, 85], ranks = [1, 2] \<rparr> ! i)
                                 (accuracies \<lparr> accuracies = [80, 90], ranks = [2, 1] \<rparr> ! i)) \<and>
        (deltaColors viz ! i = ''#10b981'' \<longleftrightarrow>
           isPositive (sub64 (accuracies \<lparr> accuracies = [82, 85], ranks = [1, 2] \<rparr> ! i)
                        (accuracies \<lparr> accuracies = [80, 90], ranks = [2, 1] \<rparr> ! i))) \<and>
        rowModel (table ! i) = [''M1'', ''M2''] ! i \<and>
        rankDelta (table ! i) =
          Some (sub64 (of_int (ranks \<lparr> accuracies = [80, 90], ranks = [2, 1] \<rparr> ! i))
                  (of_int (ranks \<lparr> accuracies = [82, 85], ranks = [1, 2] \<rparr> ! i)))"
    by blast
  from a have "deltas viz ! 0 = Some (Finite 2) \<and> deltaColors viz ! 0 = ''#10b981'' \<and>
      rowModel (table ! 0) = ''M1'' \<and> rankDelta (table ! 0) = Some (Finite 1)"
    by (simp add: s1 s2 isPositive_def)
  with b v t show ?thesis by blast
qed

text \<open>
  Claim C3 on the code. The claim is about every dataset object that the builder
  returned and that has a default style and the selected style. The builder stores the
  list of models and every style in one object, so for the rows below, with the styles
  \<^verbatim>\<open>default\<close>, \<^verbatim>\<open>color_blue\<close> and \<^verbatim>\<open>models\<close>, the property \<^verbatim>\<open>models\<close> of the object is the
  pair of arrays of the style \<^verbatim>\<open>models\<close>. The object has the default style and the
  selected style \<^verbatim>\<open>color_blue\<close>, and the updater computes no delta: \<^verbatim>\<open>models.map\<close> is
  not a function and the call throws. Without the rows of the style \<^verbatim>\<open>models\<close> the
  delta of \<^verbatim>\<open>A\<close> is \<open>82 - 80 = 2\<close> with the "up" colour, and its rank delta is
  \<open>2 - 1 = 1\<close>.
\<close>

theorem updateVisualization_models_style:
  "buildMarkerData
     [markerRecord ''DA2k'' ''default'' ''A'' 80 2,
      markerRecord ''DA2k'' ''color_blue'' ''A'' 82 1,
      markerRecord ''DA2k'' ''models'' ''A'' 70 3] =
     Inr [(''DA2k'', [(''models'', Style \<lparr> accuracies = [70], ranks = [3] \<rparr>),
                      (''default'', Style \<lparr> accuracies = [80], ranks = [2] \<rparr>),
                      (''color_blue'', Style \<lparr> accuracies = [82], ranks = [1] \<rparr>)])] \<and>
   updateVisualization
     (Some [(''DA2k'', [(''models'', Style \<lparr> accuracies = [70], ranks = [3] \<rparr>),
                        (''default'', Style \<lparr> accuracies = [80], ranks = [2] \<rparr>),
                        (''color_blue'', Style \<lparr> accuracies = [82], ranks = [1] \<rparr>)])])
     ''DA2k'' ''color_blue'' True = Some (Inl TypeError) \<and>
   buildMarkerData
     [markerRecord ''DA2k'' ''default'' ''A'' 80 2,
      markerRecord ''DA2k'' ''color_blue'' ''A'' 82 1] =
     Inr [(''DA2k'', [(''models'', Models [''A'']),
                      (''default'', Style \<lparr> accuracies = [80], ranks = [2] \<rparr>),
                      (''color_blue'', Style \<lparr> accuracies = [82], ranks = [1] \<rparr>)])] \<and>
   updateVisualization
     (Some [(''DA2k'', [(''models'', Models [''A'']),
                        (''default'', Style \<lparr> accuracies = [80], ranks = [2] \<rparr>),
                        (''color_blue'', Style \<lparr> accuracies = [82], ranks = [1] \<rparr>)])])
     ''DA2k'' ''color_blue'' True =
     Some (Inr \<lparr> deltas = [Some (Finite 2)], deltaColors = [''#10b981''],
                 defaultBars = Some [80], selectedBars = Some [82], yRange = (45, 100),
                 tableRows = Some [\<lparr> rowModel = ''A'', selectedRank = Some 1,
                                      rankDelta = Some (Finite 1), deltaClass = ''deltaUp'' \<rparr>] \<rparr>)"
proof -
  have s2: "sub64 82 80 = Finite 2" using sub64_of_int [of 82 80] by simp
  have s1: "sub64 2 1 = Finite 1" using sub64_of_int [of 2 1] by simp
  show ?thesis
    by (simp add: markerRecord_def buildMarkerData_def uniqueValues_def
        setAdd_def buildDataset_def groupByStyle_def addRow_def commonModels_def
        defaultModels_def inEveryStyle_def project_def
        updateVisualization_def updateVisualizationOn_def getDataset_def getProperty_def
        accuracyDeltas_def leaderboard_def
        accuraciesOf_def ranksOf_def numSub_def elemAt_def deltaColor_def tableRow_def
        rankClass_def s1 s2 isPositive_def isNegative_def)
qed

subsection \<open>The fallback and the names that are not styles\<close>

text \<open>
  The fallback of the updater: when reading the selected key gives \<^verbatim>\<open>undefined\<close>, the
  updater does what it does for the key \<^verbatim>\<open>default\<close>.
\<close>

lemma updateVisualizationOn_fallback:
  "getProperty obj markerKey = None \<Longrightarrow>
     updateVisualizationOn obj currentDataset markerKey hasTableBody =
     updateVisualizationOn obj currentDataset ''default'' hasTableBody"
  by (cases "getProperty obj ''default''") (simp_all add: updateVisualizationOn_def Let_def)

text \<open>
  Reading a key gives \<^verbatim>\<open>undefined\<close> when the key is no property of the object, is not
  a name of \<^verbatim>\<open>Object.prototype\<close> and, if the object has a style called \<^verbatim>\<open>__proto__\<close>, is
  neither \<^verbatim>\<open>accuracies\<close> nor \<^verbatim>\<open>ranks\<close>.
\<close>

lemma getProperty_None:
  "getProperty obj name = None \<longleftrightarrow>
     map_of obj name = None \<and> name \<notin> set objectPrototypeNames \<and>
     \<not> ((name = ''accuracies'' \<or> name = ''ranks'') \<and> hasPrototypeStyle obj)"
  by (simp add: getProperty_def split: option.splits)

text \<open>
  Claim C8 on the code. The list of models and the styles are properties of one
  object, and \<^verbatim>\<open>datasetData[markerKey] || defaultData\<close> falls back only when the object
  has no property \<^verbatim>\<open>markerKey\<close>. For the key \<^verbatim>\<open>models\<close>, which is no style of the dataset
  built from the one row below, the lookup finds the list of models, there is no
  fallback, and reading \<^verbatim>\<open>selectedData.accuracies[0]\<close> throws; with the fallback the
  result would be the one for the key \<^verbatim>\<open>default\<close>.
\<close>

theorem updateVisualization_models_key:
  "buildMarkerData [markerRecord ''DA2k'' ''default'' ''A'' 80 1] =
     Inr [(''DA2k'', [(''models'', Models [''A'']),
                      (''default'', Style \<lparr> accuracies = [80], ranks = [1] \<rparr>)])] \<and>
   updateVisualization
     (Some [(''DA2k'', [(''models'', Models [''A'']),
                        (''default'', Style \<lparr> accuracies = [80], ranks = [1] \<rparr>)])])
     ''DA2k'' ''models'' True = Some (Inl TypeError) \<and>
   updateVisualization
     (Some [(''DA2k'', [(''models'', Models [''A'']),
                        (''default'', Style \<lparr> accuracies = [80], ranks = [1] \<rparr>)])])
     ''DA2k'' ''default'' True =
     Some (Inr \<lparr> deltas = [Some (Finite 0)], deltaColors = [''#6b7280''],
                 defaultBars = Some [80],
                 selectedBars = Some [80], yRange = (45, 100),
                 tableRows = Some [\<lparr> rowModel = ''A'', selectedRank = Some 1,
                                      rankDelta = Some (Finite 0), deltaClass = ''deltaZero'' \<rparr>] \<rparr>)"
  by (simp add: markerRecord_def buildMarkerData_def uniqueValues_def
        setAdd_def buildDataset_def groupByStyle_def addRow_def commonModels_def
        defaultModels_def inEveryStyle_def project_def
        updateVisualization_def updateVisualizationOn_def getDataset_def getProperty_def
        accuracyDeltas_def leaderboard_def
        accuraciesOf_def ranksOf_def numSub_def elemAt_def deltaColor_def tableRow_def
        rankClass_def sub64_same isPositive_def isNegative_def)

text \<open>
  The same holds for a key that names a property inherited from \<^verbatim>\<open>Object.prototype\<close>,
  such as \<^verbatim>\<open>toString\<close>: the lookup finds a function, there is no fallback, and reading
  \<^verbatim>\<open>selectedData.accuracies[0]\<close> throws. A current dataset of such a name passes the
  guard of line 226, and \<^verbatim>\<open>models.map\<close> throws.
\<close>

lemma updateVisualization_inherited_key:
  "updateVisualization
     (Some [(''DA2k'', [(''models'', Models [''A'']),
                        (''default'', Style \<lparr> accuracies = [80], ranks = [1] \<rparr>)])])
     ''DA2k'' ''toString'' True = Some (Inl TypeError) \<and>
   updateVisualization
     (Some [(''DA2k'', [(''models'', Models [''A'']),
                        (''default'', Style \<lparr> accuracies = [80], ranks = [1] \<rparr>)])])
     ''constructor'' ''default'' True = Some (Inl TypeError) \<and>
   updateVisualization
     (Some [(''DA2k'', [(''models'', Models [''A'']),
                        (''default'', Style \<lparr> accuracies = [80], ranks = [1] \<rparr>)])])
     ''SPair'' ''default'' True = None"
  by (simp add: updateVisualization_def updateVisualizationOn_def getDataset_def getProperty_def
        objectPrototypeNames_def accuracyDeltas_def accuraciesOf_def)

section \<open>Properties of the marker data loader\<close>

lemma find_Some_set: "find P xs = Some x \<Longrightarrow> x \<in> set xs \<and> P x"
  by (induction xs) (auto split: if_splits)

lemma addHeader_lookup:
  "map_of (addHeader idx p) name =
     (if fst p = name \<and> fst p \<noteq> [] then Some (snd p) else map_of idx name)"
  by (auto simp: addHeader_def update_conv')

lemma foldl_addHeader_lookup:
  "map_of (foldl addHeader idx ps) name =
     (case find (\<lambda>p. fst p = name \<and> fst p \<noteq> []) (rev ps) of
        Some p \<Rightarrow> Some (snd p)
      | None \<Rightarrow> map_of idx name)"
proof (induction ps arbitrary: idx)
  case Nil
  then show ?case by simp
next
  case (Cons p ps)
  show ?case
    by (simp add: Cons.IH find_append_cases addHeader_lookup split: option.splits)
qed

text \<open>
  The header index knows exactly the headers that are not empty, and gives for a header
  a column that carries it.
\<close>

lemma buildCsvHeaderIndex_None:
  "name \<noteq> [] \<Longrightarrow> map_of (buildCsvHeaderIndex hs) name = None \<longleftrightarrow> name \<notin> set hs"
proof -
  assume n: "name \<noteq> []"
  have "find (\<lambda>p. fst p = name \<and> fst p \<noteq> []) (rev (zip hs [0..<length hs])) = None
          \<longleftrightarrow> name \<notin> fst ` set (zip hs [0..<length hs])"
    using n by (force simp: find_None_iff)
  moreover have "fst ` set (zip hs [0..<length hs]) = set hs"
    by (metis diff_zero length_upt list.set_map map_fst_zip)
  ultimately show ?thesis
    by (auto simp: buildCsvHeaderIndex_def foldl_addHeader_lookup split: option.splits)
qed

lemma buildCsvHeaderIndex_Some:
  assumes "map_of (buildCsvHeaderIndex hs) name = Some i"
  shows "i < length hs \<and> hs ! i = name"
proof -
  from assms obtain p where
    "find (\<lambda>p. fst p = name \<and> fst p \<noteq> []) (rev (zip hs [0..<length hs])) = Some p"
    and i: "snd p = i"
    by (auto simp: buildCsvHeaderIndex_def foldl_addHeader_lookup split: option.splits)
  then have "p \<in> set (zip hs [0..<length hs])" and f: "fst p = name"
    by (auto dest: find_Some_set)
  then obtain k where "k < length hs" "p = (hs ! k, [0..<length hs] ! k)"
    by (auto simp: in_set_conv_nth)
  with i f show ?thesis by auto
qed

lemma missingColumns_headers:
  "missingColumns (buildCsvHeaderIndex hs) = filter (\<lambda>name. name \<notin> set hs) requiredColumns"
  unfolding missingColumns_def
  by (rule filter_cong) (auto simp: requiredColumns_def buildCsvHeaderIndex_None)

text \<open>
  Claim C9. Take a marker CSV that was fetched and whose header row lacks a required
  column. The \<^verbatim>\<open>try\<close> block of \<^verbatim>\<open>loadMarkerData\<close> throws the error that names the missing
  columns; the function catches it and resolves to \<^verbatim>\<open>null\<close>, no dataset mapping is
  produced and \<^verbatim>\<open>MARKER_DATA\<close> keeps its value, \<^verbatim>\<open>null\<close> at page load. The page draws no
  accuracy chart, nothing is thrown out of the marker pipeline, and the JPEG rank
  pipeline gives what it gives on its own.
\<close>

theorem loadMarkerData_missing_columns:
  assumes "\<not> set requiredColumns \<subseteq> set (headers (parseSimpleCsv csvText))"
  shows "loadMarkerDataTry parseFloat parseInt (Response True status csvText) =
           Inl (MissingColumns
                  (filter (\<lambda>name. name \<notin> set (headers (parseSimpleCsv csvText))) requiredColumns)) \<and>
         filter (\<lambda>name. name \<notin> set (headers (parseSimpleCsv csvText))) requiredColumns \<noteq> [] \<and>
         loadMarkerData parseFloat parseInt (Response True status csvText) MARKER_DATA =
           (None, MARKER_DATA) \<and>
         pageLoad parseFloat parseInt (Response True status csvText) jpegResponse buttons
             hasTableBody hasContainer =
           \<lparr> markerData = None, accuracyChart = None,
             jpegRankChart =
               (case loadJpegRankData parseInt jpegResponse of
                  Inr (Some jpegRows) \<Rightarrow> renderJpegRankChart hasContainer jpegRows
                | _ \<Rightarrow> None),
             uncaught =
               (case loadJpegRankData parseInt jpegResponse of
                  Inl e \<Rightarrow> Some e | Inr jpegRows \<Rightarrow> None) \<rparr>"
proof -
  let ?hs = "headers (parseSimpleCsv csvText)"
  let ?idx = "buildCsvHeaderIndex ?hs"
  from assms obtain name where n: "name \<in> set requiredColumns" "name \<notin> set ?hs" by blast
  then have ne: "filter (\<lambda>name. name \<notin> set ?hs) requiredColumns \<noteq> []"
    by (auto simp: filter_empty_conv)
  from n have "name \<noteq> []" by (auto simp: requiredColumns_def)
  with n have "map_of ?idx name = None" by (simp add: buildCsvHeaderIndex_None)
  with n(1) have
    "map_of ?idx ''dataset'' = None \<or> map_of ?idx ''model'' = None \<or>
     map_of ?idx ''marker_style'' = None \<or> map_of ?idx ''accuracy'' = None \<or>
     map_of ?idx ''rank'' = None"
    by (auto simp: requiredColumns_def)
  then have t: "loadMarkerDataTry parseFloat parseInt (Response True status csvText) =
      Inl (MissingColumns (missingColumns ?idx))"
    by (auto simp: loadMarkerDataTry_def Let_def split: option.splits)
  then have l: "\<And>md. loadMarkerData parseFloat parseInt (Response True status csvText) md = (None, md)"
    by (simp add: loadMarkerData_def)
  have p: "pageLoad parseFloat parseInt (Response True status csvText) jpegResponse buttons
             hasTableBody hasContainer =
           \<lparr> markerData = None, accuracyChart = None,
             jpegRankChart =
               (case loadJpegRankData parseInt jpegResponse of
                  Inr (Some jpegRows) \<Rightarrow> renderJpegRankChart hasContainer jpegRows
                | _ \<Rightarrow> None),
             uncaught =
               (case loadJpegRankData parseInt jpegResponse of
                  Inl e \<Rightarrow> Some e | Inr jpegRows \<Rightarrow> None) \<rparr>"
    by (simp add: pageLoad_def l Let_def split: sum.splits option.splits)
  from t ne l p show ?thesis by (simp add: missingColumns_headers)
qed

text \<open>
  A marker CSV without the column \<^verbatim>\<open>rank\<close>: the load throws the error that names it,
  resolves to \<^verbatim>\<open>null\<close> and leaves \<^verbatim>\<open>MARKER_DATA\<close> at \<^verbatim>\<open>null\<close>.
\<close>

theorem loadMarkerData_missing_columns_witness:
  "\<not> set requiredColumns \<subseteq>
       set (headers (parseSimpleCsv ''dataset,model,marker_style,accuracy\<newline>DA2k,A,default,80'')) \<and>
   loadMarkerDataTry (\<lambda>s. None) (\<lambda>s. None)
       (Response True 200 ''dataset,model,marker_style,accuracy\<newline>DA2k,A,default,80'') =
     Inl (MissingColumns [''rank'']) \<and>
   loadMarkerData (\<lambda>s. None) (\<lambda>s. None)
       (Response True 200 ''dataset,model,marker_style,accuracy\<newline>DA2k,A,default,80'') None =
     (None, None)"
proof -
  let ?t = "''dataset,model,marker_style,accuracy\<newline>DA2k,A,default,80''"
  have hs: "headers (parseSimpleCsv ?t) = [''dataset'', ''model'', ''marker_style'', ''accuracy'']"
    by code_simp
  have h: "\<not> set requiredColumns \<subseteq> set (headers (parseSimpleCsv ?t))"
    by (simp add: hs requiredColumns_def)
  from loadMarkerData_missing_columns [OF h, of "\<lambda>s. None" "\<lambda>s. None" 200 None]
  show ?thesis using h by (simp add: hs requiredColumns_def)
qed

section \<open>Properties of the JPEG rank chart\<close>

lemma groupPush_lookup:
  "map_of (groupPush key m r) k =
     (if key r = k then Some ((case map_of m k of None \<Rightarrow> [] | Some rs \<Rightarrow> rs) @ [r])
      else map_of m k)"
  by (auto simp: groupPush_def update_conv' split: option.splits)

lemma groupPush_keys: "map fst (groupPush key m r) = setAdd (map fst m) (key r)"
  by (simp add: groupPush_def update_keys_setAdd split: option.splits)

lemma foldl_groupPush_lookup:
  "map_of (foldl (groupPush key) m rs) k =
     (if map_of m k = None \<and> filter (\<lambda>r. key r = k) rs = [] then None
      else Some ((case map_of m k of None \<Rightarrow> [] | Some l \<Rightarrow> l) @ filter (\<lambda>r. key r = k) rs))"
proof (induction rs arbitrary: m)
  case Nil
  then show ?case by auto
next
  case (Cons r rs)
  show ?case by (simp add: Cons.IH groupPush_lookup)
qed

lemma foldl_groupPush_keys:
  "map fst (foldl (groupPush key) m rs) = foldl setAdd (map fst m) (map key rs)"
  by (induction rs arbitrary: m) (simp_all add: groupPush_keys)

text \<open>A group holds the rows with its key, in the order of the rows.\<close>

lemma pointsOf_groupBy: "pointsOf (groupBy key rs) k = filter (\<lambda>r. key r = k) rs"
  by (simp add: pointsOf_def groupBy_def foldl_groupPush_lookup)

lemma groupBy_keys: "map fst (groupBy key rs) = uniqueValues (map key rs)"
  by (simp add: groupBy_def foldl_groupPush_keys uniqueValues_def)

text \<open>Sorting the points of a model changes neither its finite ranks nor its first default row.\<close>

lemma set_finiteRanks: "set (finiteRanks ps) = {r. \<exists>p \<in> set ps. jpeg_rank p = Some r}"
  by (induction ps) (auto simp: finiteRanks_def map_filter_simps split: option.splits)

lemma finiteRanks_sort:
  "set (finiteRanks (sort_key f ps)) = set (finiteRanks ps)"
  by (simp add: set_finiteRanks)

lemma finiteRanks_sort_empty: "finiteRanks (sort_key f ps) = [] \<longleftrightarrow> finiteRanks ps = []"
  using finiteRanks_sort [of f ps] by (metis set_empty)

lemma find_filter: "(\<And>x. P x \<Longrightarrow> Q x) \<Longrightarrow> find P (filter Q xs) = find P xs"
  by (induction xs) auto

lemma defaultEntry_sort:
  "defaultEntry (sort_key (\<lambda>p. qualitySortKey (jpeg_quality p)) ps) = defaultEntry ps"
proof -
  let ?f = "\<lambda>p. qualitySortKey (jpeg_quality p)"
  let ?P = "\<lambda>p. jpeg_quality p = ''default''"
  let ?Q = "\<lambda>p. ?f p = 1000"
  have pq: "\<And>p. ?P p \<Longrightarrow> ?Q p" by (simp add: qualitySortKey_def)
  have "find ?P (sort_key ?f ps) = find ?P (filter ?Q (sort_key ?f ps))"
    by (rule find_filter [symmetric]) (rule pq)
  also have "filter ?Q (sort_key ?f ps) = filter ?Q ps"
    using sort_key_stable [of ?f 1000 ps] by simp
  also have "find ?P (filter ?Q ps) = find ?P ps"
    by (rule find_filter) (rule pq)
  finally show ?thesis by (simp add: defaultEntry_def)
qed

lemma fold_min_Min: "fold min rs r = Min (set (r # rs))"
  by (rule Min.set_eq_fold [symmetric])

lemma fold_max_Max: "fold max rs r = Max (set (r # rs))"
  by (rule Max.set_eq_fold [symmetric])

text \<open>The step for one model appends its segment and its marker, if it has them.\<close>

lemma modelStep_ranges:
  "modelStep byModel panel m =
     panel \<lparr> segmentX := segmentX panel @
                 (case modelRange (pointsOf byModel m) of
                    None \<Rightarrow> [] | Some (lo, hi) \<Rightarrow> [Some lo, Some hi, None]),
             segmentY := segmentY panel @
                 (case modelRange (pointsOf byModel m) of
                    None \<Rightarrow> [] | Some (lo, hi) \<Rightarrow> [Some m, Some m, None]),
             dotX := dotX panel @
                 (case modelMarker (pointsOf byModel m) of None \<Rightarrow> [] | Some d \<Rightarrow> [d]),
             dotY := dotY panel @
                 (case modelMarker (pointsOf byModel m) of None \<Rightarrow> [] | Some d \<Rightarrow> [m]) \<rparr>"
proof -
  let ?ps = "pointsOf byModel m"
  let ?sorted = "sort_key (\<lambda>p. qualitySortKey (jpeg_quality p)) ?ps"
  show ?thesis
  proof (cases "finiteRanks ?sorted")
    case Nil
    then have "finiteRanks ?ps = []" by (simp add: finiteRanks_sort_empty)
    with Nil show ?thesis by (simp add: modelStep_def modelRange_def modelMarker_def)
  next
    case (Cons r rs)
    have ne: "finiteRanks ?ps \<noteq> []"
    proof
      assume "finiteRanks ?ps = []"
      then have "finiteRanks ?sorted = []" by (simp add: finiteRanks_sort_empty)
      with Cons show False by simp
    qed
    have s: "set (r # rs) = set (finiteRanks ?ps)"
      using finiteRanks_sort [of "\<lambda>p. qualitySortKey (jpeg_quality p)" ?ps] Cons by simp
    have mn: "fold min rs r = Min (set (finiteRanks ?ps))"
      unfolding fold_min_Min s ..
    have mx: "fold max rs r = Max (set (finiteRanks ?ps))"
      unfolding fold_max_Max s ..
    show ?thesis
      using ne
      by (simp add: modelStep_def Let_def Cons mn mx defaultEntry_sort modelRange_def
          modelMarker_def split: option.splits)
  qed
qed

lemma foldl_modelStep:
  "foldl (modelStep byModel) panel ms =
     panel \<lparr> segmentX := segmentX panel @ concat (map (\<lambda>m.
                 case modelRange (pointsOf byModel m) of
                   None \<Rightarrow> [] | Some (lo, hi) \<Rightarrow> [Some lo, Some hi, None]) ms),
             segmentY := segmentY panel @ concat (map (\<lambda>m.
                 case modelRange (pointsOf byModel m) of
                   None \<Rightarrow> [] | Some (lo, hi) \<Rightarrow> [Some m, Some m, None]) ms),
             dotX := dotX panel @ concat (map (\<lambda>m.
                 case modelMarker (pointsOf byModel m) of None \<Rightarrow> [] | Some d \<Rightarrow> [d]) ms),
             dotY := dotY panel @ concat (map (\<lambda>m.
                 case modelMarker (pointsOf byModel m) of None \<Rightarrow> [] | Some d \<Rightarrow> [m]) ms) \<rparr>"
proof (induction ms arbitrary: panel)
  case Nil
  then show ?case by simp
next
  case (Cons m ms)
  show ?case by (simp add: Cons.IH modelStep_ranges [of byModel panel m])
qed

text \<open>
  The sort of the models gives a permutation. When no default rank is \<^verbatim>\<open>NaN\<close>, the
  comparator is consistent and the result is the stable sort by the default rank.
\<close>

lemma set_insertBy: "set (insertBy before x xs) = insert x (set xs)"
  by (induction xs) auto

lemma distinct_insertBy: "distinct (insertBy before x xs) \<longleftrightarrow> x \<notin> set xs \<and> distinct xs"
  by (induction xs) (auto simp: set_insertBy)

lemma set_sortBy: "set (sortBy before xs) = set xs"
  by (induction xs) (simp_all add: sortBy_def set_insertBy)

lemma distinct_sortBy: "distinct (sortBy before xs) \<longleftrightarrow> distinct xs"
  by (induction xs) (simp_all add: sortBy_def distinct_insertBy set_sortBy [unfolded sortBy_def])

lemma insertBy_insort_key:
  "insertBy (\<lambda>a b. f a < f b) x xs = insort_key f x xs"
  by (induction xs) (auto simp: not_less)

lemma sortBy_sort_key:
  fixes f :: "'a \<Rightarrow> 'b::linorder"
  shows "sortBy (\<lambda>a b. f a < f b) xs = sort_key f xs"
  by (induction xs) (simp_all add: sortBy_def insertBy_insort_key)

lemma modelsSorted_sort_key:
  assumes "\<forall>m \<in> set (map fst byModel). defaultSortKey (pointsOf byModel m) \<noteq> None"
  shows "modelsSorted byModel =
     sort_key (\<lambda>m. the (defaultSortKey (pointsOf byModel m))) (map fst byModel)"
proof -
  have "\<And>xs. \<forall>m \<in> set xs. defaultSortKey (pointsOf byModel m) \<noteq> None \<Longrightarrow>
      sortBy (\<lambda>a b. defaultBefore (defaultSortKey (pointsOf byModel a))
                                 (defaultSortKey (pointsOf byModel b))) xs =
      sortBy (\<lambda>a b. the (defaultSortKey (pointsOf byModel a))
                     < the (defaultSortKey (pointsOf byModel b))) xs"
  proof -
    fix xs
    show "\<forall>m \<in> set xs. defaultSortKey (pointsOf byModel m) \<noteq> None \<Longrightarrow>
      sortBy (\<lambda>a b. defaultBefore (defaultSortKey (pointsOf byModel a))
                                 (defaultSortKey (pointsOf byModel b))) xs =
      sortBy (\<lambda>a b. the (defaultSortKey (pointsOf byModel a))
                     < the (defaultSortKey (pointsOf byModel b))) xs"
    proof (induction xs)
      case Nil
      then show ?case by (simp add: sortBy_def)
    next
      case (Cons x xs)
      let ?k = "\<lambda>m. defaultSortKey (pointsOf byModel m)"
      have ins: "\<And>ys. \<forall>m \<in> set ys. ?k m \<noteq> None \<Longrightarrow>
          insertBy (\<lambda>a b. defaultBefore (?k a) (?k b)) x ys =
          insertBy (\<lambda>a b. the (?k a) < the (?k b)) x ys"
      proof -
        fix ys
        show "\<forall>m \<in> set ys. ?k m \<noteq> None \<Longrightarrow>
          insertBy (\<lambda>a b. defaultBefore (?k a) (?k b)) x ys =
          insertBy (\<lambda>a b. the (?k a) < the (?k b)) x ys"
          using Cons.prems by (induction ys) (auto simp: defaultBefore_def)
      qed
      from Cons have ih: "sortBy (\<lambda>a b. defaultBefore (?k a) (?k b)) xs =
          sortBy (\<lambda>a b. the (?k a) < the (?k b)) xs" by simp
      have "\<forall>m \<in> set (sortBy (\<lambda>a b. the (?k a) < the (?k b)) xs). ?k m \<noteq> None"
        using Cons.prems by (simp add: set_sortBy)
      from ins [OF this] ih show ?case by (simp add: sortBy_def)
    qed
  qed
  from this [OF assms] show ?thesis by (simp add: modelsSorted_def sortBy_sort_key)
qed

text \<open>
  Two models of which the first has a default rank that is \<^verbatim>\<open>NaN\<close>: every comparison
  with it gives \<^verbatim>\<open>NaN\<close>, and the models stay in the order of the rows.
\<close>

lemma modelsSorted_NaN:
  "modelsSorted (groupBy jpeg_model
     [jpegRecord ''MME'' ''A'' ''default'' None, jpegRecord ''MME'' ''B'' ''default'' (Some 1)]) =
   [''A'', ''B'']"
  by code_simp

lemma benchmarkPanel_ranges:
  assumes "filter (\<lambda>r. benchmark r = b) rs \<noteq> []"
  shows "\<exists>sorted panel.
     benchmarkPanel (groupBy benchmark rs) b = Some (rev sorted, panel) \<and>
     distinct sorted \<and> set sorted = jpeg_model ` {r \<in> set rs. benchmark r = b} \<and>
     segmentX panel = concat (map (\<lambda>m.
        case modelRange (rowsOfModel rs b m) of
          None \<Rightarrow> [] | Some (lo, hi) \<Rightarrow> [Some lo, Some hi, None]) sorted) \<and>
     segmentY panel = concat (map (\<lambda>m.
        case modelRange (rowsOfModel rs b m) of
          None \<Rightarrow> [] | Some (lo, hi) \<Rightarrow> [Some m, Some m, None]) sorted) \<and>
     dotX panel = concat (map (\<lambda>m.
        case modelMarker (rowsOfModel rs b m) of None \<Rightarrow> [] | Some d \<Rightarrow> [d]) sorted) \<and>
     dotY panel = concat (map (\<lambda>m.
        case modelMarker (rowsOfModel rs b m) of None \<Rightarrow> [] | Some d \<Rightarrow> [m]) sorted)"
proof -
  let ?data = "filter (\<lambda>r. benchmark r = b) rs"
  let ?byModel = "groupBy jpeg_model ?data"
  let ?sorted = "modelsSorted ?byModel"
  let ?init = "\<lparr> segmentX = [], segmentY = [], dotX = [], dotY = [] \<rparr>"
  from assms obtain d ds where dd: "?data = d # ds" by (cases ?data) auto
  have p: "pointsOf (groupBy benchmark rs) b = d # ds"
    by (simp add: pointsOf_groupBy dd)
  have bp: "benchmarkPanel (groupBy benchmark rs) b =
              Some (rev ?sorted, foldl (modelStep ?byModel) ?init ?sorted)"
    by (simp add: benchmarkPanel_def p Let_def dd)
  have pts: "\<And>m. pointsOf ?byModel m = rowsOfModel rs b m"
    by (simp add: pointsOf_groupBy rowsOfModel_def)
  have di: "distinct ?sorted"
    by (simp add: modelsSorted_def distinct_sortBy groupBy_keys distinct_uniqueValues)
  have st: "set ?sorted = jpeg_model ` {r \<in> set rs. benchmark r = b}"
    by (auto simp: modelsSorted_def set_sortBy groupBy_keys set_uniqueValues)
  show ?thesis
    using bp di st by (simp add: foldl_modelStep pts)
qed

text \<open>
  Claim C7, as the code has it. For each of the two benchmarks \<^verbatim>\<open>BLINK_RD\<close> and \<^verbatim>\<open>MME\<close>
  that has rows, the chart has a panel; rows of other benchmarks are ignored. The panel
  lists every model of the benchmark once. For a model with a finite rank, the segment
  arrays hold its range, from the least to the greatest finite rank over its quality
  variants; a model whose ranks are all not finite has no segment and no marker. The
  marker arrays hold the rank of the model's first \<^verbatim>\<open>default\<close> row when that rank is
  finite; there is no marker when the model has no \<^verbatim>\<open>default\<close> row, or when the rank of
  that row is not finite.
\<close>

theorem renderJpegRankChart_ranges:
  assumes "b \<in> set BENCHMARKS" and "filter (\<lambda>r. benchmark r = b) rs \<noteq> []"
  shows "\<exists>chart sorted panel.
     renderJpegRankChart True rs = Some chart \<and>
     map_of chart b = Some (Some (rev sorted, panel)) \<and>
     distinct sorted \<and> set sorted = jpeg_model ` {r \<in> set rs. benchmark r = b} \<and>
     segmentX panel = concat (map (\<lambda>m.
        case modelRange (rowsOfModel rs b m) of
          None \<Rightarrow> [] | Some (lo, hi) \<Rightarrow> [Some lo, Some hi, None]) sorted) \<and>
     segmentY panel = concat (map (\<lambda>m.
        case modelRange (rowsOfModel rs b m) of
          None \<Rightarrow> [] | Some (lo, hi) \<Rightarrow> [Some m, Some m, None]) sorted) \<and>
     dotX panel = concat (map (\<lambda>m.
        case modelMarker (rowsOfModel rs b m) of None \<Rightarrow> [] | Some d \<Rightarrow> [d]) sorted) \<and>
     dotY panel = concat (map (\<lambda>m.
        case modelMarker (rowsOfModel rs b m) of None \<Rightarrow> [] | Some d \<Rightarrow> [m]) sorted)"
proof -
  have "map_of (map (\<lambda>k. (k, benchmarkPanel (groupBy benchmark rs) k)) BENCHMARKS) b =
          Some (benchmarkPanel (groupBy benchmark rs) b)"
    using assms(1) by (auto simp: BENCHMARKS_def)
  with benchmarkPanel_ranges [OF assms(2)] show ?thesis
    by (auto simp: renderJpegRankChart_def Let_def)
qed

lemma distinct_set_singleton:
  assumes "distinct xs" and "set xs = {x}"
  shows "xs = [x]"
proof (cases xs)
  case Nil
  with assms(2) show ?thesis by simp
next
  case (Cons a as)
  with assms(2) have a: "a = x" and s: "set as \<subseteq> {x}" by auto
  from Cons assms(1) have "a \<notin> set as" by simp
  with a s have "as = []" by (cases as) auto
  with Cons a show ?thesis by simp
qed

text \<open>
  The scenario of section 8: a model \<^verbatim>\<open>M\<close> with the ranks 3 (default), 5 (jpeg70) and
  2 (jpeg90). Its range is from 2 to 5 and its marker is at 3.
\<close>

theorem renderJpegRankChart_ranges_witness:
  "''MME'' \<in> set BENCHMARKS \<and>
   modelRange [jpegRecord ''MME'' ''M'' ''default'' (Some 3),
               jpegRecord ''MME'' ''M'' ''jpeg70'' (Some 5),
               jpegRecord ''MME'' ''M'' ''jpeg90'' (Some 2)] = Some (2, 5) \<and>
   modelMarker [jpegRecord ''MME'' ''M'' ''default'' (Some 3),
               jpegRecord ''MME'' ''M'' ''jpeg70'' (Some 5),
               jpegRecord ''MME'' ''M'' ''jpeg90'' (Some 2)] = Some 3 \<and>
   (\<exists>chart panel.
      renderJpegRankChart True
        [jpegRecord ''MME'' ''M'' ''default'' (Some 3),
         jpegRecord ''MME'' ''M'' ''jpeg70'' (Some 5),
         jpegRecord ''MME'' ''M'' ''jpeg90'' (Some 2)] = Some chart \<and>
      map_of chart ''MME'' = Some (Some ([''M''], panel)) \<and>
      segmentX panel = [Some 2, Some 5, None] \<and>
      segmentY panel = [Some ''M'', Some ''M'', None] \<and>
      dotX panel = [3] \<and> dotY panel = [''M''])"
proof -
  let ?rs = "[jpegRecord ''MME'' ''M'' ''default'' (Some 3),
              jpegRecord ''MME'' ''M'' ''jpeg70'' (Some 5),
              jpegRecord ''MME'' ''M'' ''jpeg90'' (Some 2)]"
  have b: "''MME'' \<in> set BENCHMARKS" by (simp add: BENCHMARKS_def)
  have ne: "filter (\<lambda>r. benchmark r = ''MME'') ?rs \<noteq> []" by (simp add: jpegRecord_def)
  have rm: "rowsOfModel ?rs ''MME'' ''M'' = ?rs" by (simp add: rowsOfModel_def jpegRecord_def)
  have fr: "finiteRanks ?rs = [3, 5, 2]"
    by (simp add: finiteRanks_def map_filter_simps jpegRecord_def)
  have mr: "modelRange ?rs = Some (2, 5)" by (simp add: modelRange_def fr)
  have mm: "modelMarker ?rs = Some 3"
    by (simp add: modelMarker_def fr defaultEntry_def) (simp add: jpegRecord_def)
  from renderJpegRankChart_ranges [OF b ne]
  obtain chart sorted panel where
    c: "renderJpegRankChart True ?rs = Some chart"
    and l: "map_of chart ''MME'' = Some (Some (rev sorted, panel))"
    and d: "distinct sorted"
    and s: "set sorted = jpeg_model ` {r \<in> set ?rs. benchmark r = ''MME''}"
    and x: "segmentX panel = concat (map (\<lambda>m.
        case modelRange (rowsOfModel ?rs ''MME'' m) of
          None \<Rightarrow> [] | Some (lo, hi) \<Rightarrow> [Some lo, Some hi, None]) sorted)"
    and y: "segmentY panel = concat (map (\<lambda>m.
        case modelRange (rowsOfModel ?rs ''MME'' m) of
          None \<Rightarrow> [] | Some (lo, hi) \<Rightarrow> [Some m, Some m, None]) sorted)"
    and dx: "dotX panel = concat (map (\<lambda>m.
        case modelMarker (rowsOfModel ?rs ''MME'' m) of None \<Rightarrow> [] | Some d \<Rightarrow> [d]) sorted)"
    and dy: "dotY panel = concat (map (\<lambda>m.
        case modelMarker (rowsOfModel ?rs ''MME'' m) of None \<Rightarrow> [] | Some d \<Rightarrow> [m]) sorted)"
    by blast
  have "jpeg_model ` {r \<in> set ?rs. benchmark r = ''MME''} =
          set (map jpeg_model (filter (\<lambda>r. benchmark r = ''MME'') ?rs))"
    by (simp only: set_map set_filter)
  also have "\<dots> = {''M''}" by (simp add: jpegRecord_def)
  finally have "set sorted = {''M''}" using s by simp
  with d have so: "sorted = [''M'']" by (rule distinct_set_singleton)
  from l so have l': "map_of chart ''MME'' = Some (Some ([''M''], panel))" by simp
  from x y dx dy have "segmentX panel = [Some 2, Some 5, None] \<and>
      segmentY panel = [Some ''M'', Some ''M'', None] \<and> dotX panel = [3] \<and> dotY panel = [''M'']"
    by (simp add: so rm mr mm)
  with c l' have "\<exists>chart panel.
      renderJpegRankChart True ?rs = Some chart \<and>
      map_of chart ''MME'' = Some (Some ([''M''], panel)) \<and>
      segmentX panel = [Some 2, Some 5, None] \<and>
      segmentY panel = [Some ''M'', Some ''M'', None] \<and>
      dotX panel = [3] \<and> dotY panel = [''M'']"
    by blast
  with b mr mm show ?thesis by blast
qed

text \<open>
  Claim C7 as the specification states it, a range segment for every model, fails for
  a model without a finite rank: for the one row of \<^verbatim>\<open>M\<close> below, whose rank \<^verbatim>\<open>parseInt\<close>
  could not read, the panel has the model and no segment. A model whose \<^verbatim>\<open>default\<close> row
  has such a rank has a segment from its other rows and no marker.
\<close>

theorem renderJpegRankChart_no_segment_counterexample:
  "renderJpegRankChart True [jpegRecord ''MME'' ''M'' ''default'' None] =
     Some [(''BLINK_RD'', None),
           (''MME'', Some ([''M''], \<lparr> segmentX = [], segmentY = [], dotX = [], dotY = [] \<rparr>))] \<and>
   renderJpegRankChart True
     [jpegRecord ''MME'' ''M'' ''default'' None, jpegRecord ''MME'' ''M'' ''jpeg70'' (Some 5)] =
     Some [(''BLINK_RD'', None),
           (''MME'', Some ([''M''], \<lparr> segmentX = [Some 5, Some 5, None],
                                       segmentY = [Some ''M'', Some ''M'', None],
                                       dotX = [], dotY = [] \<rparr>))]"
  by code_simp

end
